theory Spec2Isabelle
  imports Main
begin

section \<open>JavaScript values and objects\<close>

text \<open>
  The programs are JavaScript. A property value is one of the scalar JSON values;
  numbers are modelled as integers (timestamps in milliseconds, plant ids), which is
  all the modelled code computes with. An object is the list of its properties in
  insertion order; \<open>get obj k\<close> reads a property (\<open>undefined\<close> when it is not
  there) and \<open>put k v obj\<close> is the copy \<open>{...obj, k: v}\<close>.
\<close>

datatype jsval = JUndefined | JNull | JBool bool | JNum int | JStr string

type_synonym jsobj = "(string \<times> jsval) list"

fun get :: "jsobj \<Rightarrow> string \<Rightarrow> jsval" where
  "get [] k = JUndefined"
| "get ((k', v) # ps) k = (if k' = k then v else get ps k)"

fun has_key :: "jsobj \<Rightarrow> string \<Rightarrow> bool" where
  "has_key [] k = False"
| "has_key ((k', v) # ps) k = (k' = k \<or> has_key ps k)"

fun replace_prop :: "string \<Rightarrow> jsval \<Rightarrow> jsobj \<Rightarrow> jsobj" where
  "replace_prop k v [] = []"
| "replace_prop k v ((k', v') # ps) =
     (if k' = k then (k', v) # ps else (k', v') # replace_prop k v ps)"

definition put :: "string \<Rightarrow> jsval \<Rightarrow> jsobj \<Rightarrow> jsobj" where
  "put k v obj = (if has_key obj k then replace_prop k v obj else obj @ [(k, v)])"

fun truthy :: "jsval \<Rightarrow> bool" where
  "truthy JUndefined = False"
| "truthy JNull = False"
| "truthy (JBool b) = b"
| "truthy (JNum n) = (n \<noteq> 0)"
| "truthy (JStr s) = (s \<noteq> [])"

text \<open>\<open>a || b\<close>, and the chain \<open>a1 || a2 || ... || d\<close> as \<open>ors [a1, a2, ...] d\<close>.\<close>

definition jor :: "jsval \<Rightarrow> jsval \<Rightarrow> jsval" where
  "jor a b = (if truthy a then a else b)"

fun ors :: "jsval list \<Rightarrow> jsval \<Rightarrow> jsval" where
  "ors [] d = d"
| "ors (a # as) d = (if truthy a then a else ors as d)"

text \<open>
  String conversion of a value, as a template literal \<open>`${v}`\<close> does it, and the
  string methods the code calls. \<open>toLowerCase\<close> is modelled on ASCII letters.
  A method call on a value that is not a string raises a TypeError: \<open>None\<close>.
  A number of the model is an integer (ids, counters, milliseconds) and is rendered
  in plain decimal, as JavaScript renders an integer of magnitude below \<open>10^21\<close>;
  from there on JavaScript writes the exponent form (\<open>1e+21\<close>), and fractional
  numbers are not modelled. No statement below depends on the digits of a rendered
  number other than those of the plant ids 1 and 2 and of the sample clock.
\<close>

definition digit_char :: "nat \<Rightarrow> char" where
  "digit_char n = ''0123456789'' ! n"

fun show_nat :: "nat \<Rightarrow> string" where
  "show_nat n = (if n < 10 then [digit_char n] else show_nat (n div 10) @ [digit_char (n mod 10)])"

declare show_nat.simps [simp del]

definition show_int :: "int \<Rightarrow> string" where
  "show_int i = (if i < 0 then CHR ''-'' # show_nat (nat (- i)) else show_nat (nat i))"

fun to_string :: "jsval \<Rightarrow> string" where
  "to_string JUndefined = ''undefined''"
| "to_string JNull = ''null''"
| "to_string (JBool b) = (if b then ''true'' else ''false'')"
| "to_string (JNum n) = show_int n"
| "to_string (JStr s) = s"

definition lower_char :: "char \<Rightarrow> char" where
  "lower_char c =
     (case map_of (zip ''ABCDEFGHIJKLMNOPQRSTUVWXYZ'' ''abcdefghijklmnopqrstuvwxyz'') c of
        None \<Rightarrow> c
      | Some l \<Rightarrow> l)"

definition toLowerCase :: "string \<Rightarrow> string" where
  "toLowerCase s = map lower_char s"

fun startsWith :: "string \<Rightarrow> string \<Rightarrow> bool" where
  "startsWith s [] = True"
| "startsWith [] (p # ps) = False"
| "startsWith (c # cs) (p # ps) = (c = p \<and> startsWith cs ps)"

fun str_includes :: "string \<Rightarrow> string \<Rightarrow> bool" where
  "str_includes [] t = (t = [])"
| "str_includes (c # cs) t = (startsWith (c # cs) t \<or> str_includes cs t)"

text \<open>\<open>s.replace(p, '')\<close> with a string pattern: the first occurrence is removed.\<close>

fun replace_first :: "string \<Rightarrow> string \<Rightarrow> string" where
  "replace_first [] p = []"
| "replace_first (c # cs) p =
     (if startsWith (c # cs) p then drop (length p) (c # cs) else c # replace_first cs p)"

text \<open>
  Time and randomness are inputs: each call that reads the clock or draws a random
  suffix gets them in an \<open>env\<close>. The platform's \<open>Date.parse\<close> is a parameter
  \<open>dp\<close> (\<open>None\<close> is NaN); \<open>getTime dp v\<close> is \<open>new Date(v).getTime()\<close>.
\<close>

record env =
  now :: int
  nowIso :: string
  rnd :: string

fun getTime :: "(string \<Rightarrow> int option) \<Rightarrow> jsval \<Rightarrow> int option" where
  "getTime dp JUndefined = None"
| "getTime dp JNull = Some 0"
| "getTime dp (JBool b) = Some (if b then 1 else 0)"
| "getTime dp (JNum n) = (if \<bar>n\<bar> \<le> 8640000000000000 then Some n else None)"
| "getTime dp (JStr s) = dp s"

definition synth_id :: "string \<Rightarrow> env \<Rightarrow> jsval" where
  "synth_id prefix e = JStr (prefix @ ''-'' @ show_int (now e) @ ''-'' @ rnd e)"

section \<open>The client cache of socketService.js\<close>

record cache =
  alarmsInitialDataLoaded :: bool
  alarmData :: "jsobj list"
  notificationsInitialDataLoaded :: bool
  notificationData :: "jsobj list"
  lastFetchTime :: "int option"
  lastNotificationFetchTime :: "int option"
  currentPlant :: jsval
  currentDevice :: jsval

text \<open>
  \<open>markAlarmAsRead(alarmId)\<close>: returns at once on a falsy id, otherwise maps the
  array, replacing each alarm whose \<open>_id\<close> is strictly equal to the id by a copy
  with \<open>IsRead: true\<close>.
\<close>

definition markAlarmAsRead :: "jsval \<Rightarrow> cache \<Rightarrow> cache" where
  "markAlarmAsRead alarmId c =
     (if \<not> truthy alarmId then c
      else c\<lparr>alarmData :=
        map (\<lambda>alarm. if get alarm ''_id'' = alarmId then put ''IsRead'' (JBool True) alarm else alarm)
          (alarmData c)\<rparr>)"

text \<open>
  The class body of socketService.js defines \<open>cacheAlarmData\<close>,
  \<open>getCachedAlarmData\<close> and \<open>clearAlarmCache\<close> twice; in a JavaScript class the
  later method definition replaces the earlier one, so the later ones (lines 566-581 and
  626-631) are the methods of the service. \<open>cacheAlarmData\<close> stores a copy of a
  non-empty array and does nothing on an empty one.
\<close>

definition cacheAlarmData :: "env \<Rightarrow> jsobj list \<Rightarrow> cache \<Rightarrow> cache" where
  "cacheAlarmData e data c =
     (if length data > 0
      then c\<lparr>alarmData := data, alarmsInitialDataLoaded := True, lastFetchTime := Some (now e)\<rparr>
      else c)"

definition clearAlarmCache :: "cache \<Rightarrow> cache" where
  "clearAlarmCache c = c\<lparr>alarmData := [], alarmsInitialDataLoaded := False, lastFetchTime := None\<rparr>"

text \<open>
  \<open>addAlarmToCache(newAlarm)\<close>: \<open>None\<close> is a null or undefined argument. The
  duplicate test is the \<open>findIndex\<close> of lines 589-592, the record the object literal
  of lines 600-611, and the new record is put in front of the array.
\<close>

definition cache_dup :: "jsobj \<Rightarrow> jsval \<Rightarrow> jsobj \<Rightarrow> bool" where
  "cache_dup newAlarm alarmId a \<longleftrightarrow>
     get a ''_id'' = alarmId \<or> get a ''AlarmId'' = alarmId \<or>
     (truthy (get newAlarm ''timestamp'') \<and> get a ''CreatedTimestamp'' = get newAlarm ''timestamp'')"

definition cache_format :: "env \<Rightarrow> jsobj \<Rightarrow> jsval \<Rightarrow> jsobj" where
  "cache_format e newAlarm alarmId =
     [(''_id'', jor alarmId (synth_id ''alarm'' e)),
      (''AlarmId'', ors [get newAlarm ''id'', get newAlarm ''alarmId'', get newAlarm ''AlarmId''] (JStr [])),
      (''AlarmCode'', ors [get newAlarm ''alarmCode'', get newAlarm ''AlarmCode''] (JStr [])),
      (''AlarmDescription'',
         ors [get newAlarm ''description'', get newAlarm ''alarmDescription'', get newAlarm ''AlarmDescription'']
           (JStr [])),
      (''CreatedTimestamp'',
         ors [get newAlarm ''timestamp'', get newAlarm ''createdTimestamp'', get newAlarm ''CreatedTimestamp'']
           (JStr (nowIso e))),
      (''DeviceId'', ors [get newAlarm ''deviceId'', get newAlarm ''DeviceId''] (JStr [])),
      (''DeviceName'', ors [get newAlarm ''deviceName'', get newAlarm ''DeviceName''] (JStr [])),
      (''PlantName'', ors [get newAlarm ''plantName'', get newAlarm ''PlantName''] (JStr [])),
      (''IsActive'', JBool True),
      (''IsRead'', JBool False)]"

definition cache_id :: "jsobj \<Rightarrow> jsval" where
  "cache_id newAlarm = ors [get newAlarm ''id'', get newAlarm ''_id'', get newAlarm ''AlarmId''] (JStr [])"

definition addAlarmToCache :: "env \<Rightarrow> jsobj option \<Rightarrow> cache \<Rightarrow> cache" where
  "addAlarmToCache e arg c =
     (case arg of
        None \<Rightarrow> c
      | Some newAlarm \<Rightarrow>
          if list_ex (cache_dup newAlarm (cache_id newAlarm)) (alarmData c) then c
          else c\<lparr>alarmData := cache_format e newAlarm (cache_id newAlarm) # alarmData c\<rparr>)"

text \<open>
  Descending order of a record sequence by \<open>CreatedTimestamp\<close>: every record's
  timestamp parses and is not older than that of any record after it.
\<close>

definition newer_eq :: "(string \<Rightarrow> int option) \<Rightarrow> jsobj \<Rightarrow> jsobj \<Rightarrow> bool" where
  "newer_eq dp a b =
     (case (getTime dp (get a ''CreatedTimestamp''), getTime dp (get b ''CreatedTimestamp'')) of
        (Some ta, Some tb) \<Rightarrow> tb \<le> ta
      | _ \<Rightarrow> False)"

definition sorted_desc :: "(string \<Rightarrow> int option) \<Rightarrow> jsobj list \<Rightarrow> bool" where
  "sorted_desc dp xs = sorted_wrt (newer_eq dp) xs"

section \<open>The alarm list of AlarmsTab.js\<close>

text \<open>
  \<open>Array.prototype.sort\<close> with the comparator
  \<open>(a, b) => new Date(b.CreatedTimestamp) - new Date(a.CreatedTimestamp)\<close>. The sort
  is stable; it is modelled as a stable insertion sort that puts \<open>a\<close> before \<open>b\<close>
  unless the comparator is positive. A NaN difference counts as 0, as the language
  specifies. With an unparseable timestamp the comparator is inconsistent and the
  language leaves the order to the implementation: the model fixes one order, which
  need not be the one an engine produces. Model and code agree on every list whose
  timestamps all parse, and the statements below that sort are about such lists.
\<close>

definition cmp_desc :: "(string \<Rightarrow> int option) \<Rightarrow> jsobj \<Rightarrow> jsobj \<Rightarrow> int" where
  "cmp_desc dp a b =
     (case (getTime dp (get b ''CreatedTimestamp''), getTime dp (get a ''CreatedTimestamp'')) of
        (Some tb, Some ta) \<Rightarrow> tb - ta
      | _ \<Rightarrow> 0)"

fun insert_by :: "('a \<Rightarrow> 'a \<Rightarrow> int) \<Rightarrow> 'a \<Rightarrow> 'a list \<Rightarrow> 'a list" where
  "insert_by cmp x [] = [x]"
| "insert_by cmp x (y # ys) = (if cmp x y \<le> 0 then x # y # ys else y # insert_by cmp x ys)"

definition sort_by :: "('a \<Rightarrow> 'a \<Rightarrow> int) \<Rightarrow> 'a list \<Rightarrow> 'a list" where
  "sort_by cmp xs = foldr (insert_by cmp) xs []"

text \<open>
  The component state \<open>handleNewAlarm\<close> writes: the ref \<open>alarmsRef.current\<close>, the
  React state \<open>alarms\<close> and \<open>dataSource\<close>; it also writes the service cache.
  \<open>strLower v\<close> is \<open>v.toLowerCase()\<close>, a TypeError on a value that is not a
  string. An exception of the handler leaves the state as it was (it is raised
  before the first write and caught by the caller's \<open>try\<close>).
\<close>

record tab =
  alarmsRef :: "jsobj list"
  alarms :: "jsobj list"
  dataSource :: string

fun strLower :: "jsval \<Rightarrow> string option" where
  "strLower (JStr s) = Some (toLowerCase s)"
| "strLower _ = None"

datatype filter_result = Pass | Filtered | TypeError

definition name_filter :: "jsval \<Rightarrow> jsval \<Rightarrow> filter_result" where
  "name_filter selected name =
     (if \<not> truthy selected then Pass
      else case strLower name of
        None \<Rightarrow> TypeError
      | Some n \<Rightarrow> (case strLower selected of
          None \<Rightarrow> TypeError
        | Some s \<Rightarrow> if n \<noteq> s then Filtered else Pass))"

definition tab_dup :: "(string \<Rightarrow> int option) \<Rightarrow> env \<Rightarrow> jsobj \<Rightarrow> jsval \<Rightarrow> jsobj \<Rightarrow> bool" where
  "tab_dup dp e alarmData' alarmId a \<longleftrightarrow>
     get a ''_id'' = alarmId \<or> get a ''AlarmId'' = alarmId \<or>
     (truthy (get alarmData' ''timestamp'') \<and> get a ''CreatedTimestamp'' = get alarmData' ''timestamp'') \<or>
     (truthy (get alarmData' ''AlarmCode'') \<and> get a ''AlarmCode'' = get alarmData' ''AlarmCode'' \<and>
      (case getTime dp (get a ''CreatedTimestamp'') of None \<Rightarrow> False | Some t \<Rightarrow> t > now e - 5000))"

definition tab_format :: "env \<Rightarrow> jsobj \<Rightarrow> jsval \<Rightarrow> jsobj" where
  "tab_format e alarmData' alarmId =
     [(''_id'', alarmId),
      (''AlarmId'', ors [get alarmData' ''id'', get alarmData' ''alarmId'', get alarmData' ''AlarmId''] alarmId),
      (''AlarmCode'', ors [get alarmData' ''alarmCode'', get alarmData' ''AlarmCode'', get alarmData' ''code''] (JStr [])),
      (''AlarmDescription'',
         ors [get alarmData' ''description'', get alarmData' ''alarmDescription'',
              get alarmData' ''AlarmDescription'', get alarmData' ''message''] (JStr ''Unknown alarm'')),
      (''CreatedTimestamp'',
         ors [get alarmData' ''timestamp'', get alarmData' ''createdTimestamp'', get alarmData' ''CreatedTimestamp'']
           (JStr (nowIso e))),
      (''DeviceId'', ors [get alarmData' ''deviceId'', get alarmData' ''DeviceId''] (JStr [])),
      (''DeviceName'', ors [get alarmData' ''deviceName'', get alarmData' ''DeviceName''] (JStr ''Unknown Device'')),
      (''PlantName'', ors [get alarmData' ''plantName'', get alarmData' ''PlantName''] (JStr [])),
      (''IsActive'', JBool True),
      (''IsRead'', JBool False),
      (''Source'', JStr ''websocket'')]"

definition tab_id :: "env \<Rightarrow> jsobj \<Rightarrow> jsval" where
  "tab_id e alarmData' =
     ors [get alarmData' ''_id'', get alarmData' ''id'', get alarmData' ''alarmId'', get alarmData' ''AlarmId'']
       (synth_id ''alarm'' e)"

definition tab_passes :: "jsval \<Rightarrow> jsval \<Rightarrow> jsobj \<Rightarrow> bool" where
  "tab_passes selectedPlant selectedDevice alarmData' \<longleftrightarrow>
     name_filter selectedPlant (ors [get alarmData' ''PlantName'', get alarmData' ''plantName''] (JStr [])) = Pass \<and>
     name_filter selectedDevice (ors [get alarmData' ''DeviceName'', get alarmData' ''deviceName''] (JStr [])) = Pass"

definition handleNewAlarm ::
  "(string \<Rightarrow> int option) \<Rightarrow> env \<Rightarrow> jsval \<Rightarrow> jsval \<Rightarrow> jsobj option \<Rightarrow> tab \<times> cache \<Rightarrow> tab \<times> cache"
where
  "handleNewAlarm dp e selectedPlant selectedDevice arg st =
     (case arg of
        None \<Rightarrow> st
      | Some alarmData' \<Rightarrow>
          if \<not> tab_passes selectedPlant selectedDevice alarmData' then st
          else if list_ex (tab_dup dp e alarmData' (tab_id e alarmData')) (alarmsRef (fst st)) then st
          else
            let formattedAlarm = tab_format e alarmData' (tab_id e alarmData');
                updatedAlarms = sort_by (cmp_desc dp) (formattedAlarm # alarmsRef (fst st))
            in ((fst st)\<lparr>dataSource := ''websocket'', alarmsRef := updatedAlarms,
                         alarms := updatedAlarms\<rparr>,
                addAlarmToCache e (Some formattedAlarm) (snd st)))"

section \<open>The notification bell (processAlarm)\<close>

text \<open>
  \<open>processAlarm\<close> of the alarm notification component keeps the ten most recent
  alarms in a ref, shows the first five and counts unread ones. Its duplicate test
  compares the resolved alarm code and device name and the distance of the two
  timestamps (NaN compares false).
\<close>

record bell =
  bellRef :: "jsobj list"
  recentAlarms :: "jsobj list"
  unreadCount :: nat
  isLoading :: bool

definition bell_dup :: "(string \<Rightarrow> int option) \<Rightarrow> jsval \<Rightarrow> jsval \<Rightarrow> int option \<Rightarrow> jsobj \<Rightarrow> bool" where
  "bell_dup dp alarmCode deviceName newTimestamp alarm =
     (if get alarm ''AlarmCode'' \<noteq> alarmCode \<or> get alarm ''DeviceName'' \<noteq> deviceName then False
      else case (getTime dp (get alarm ''CreatedTimestamp''), newTimestamp) of
             (Some existingTimestamp, Some n) \<Rightarrow> \<bar>existingTimestamp - n\<bar> < 5000
           | _ \<Rightarrow> False)"

definition bell_timestamp :: "env \<Rightarrow> jsobj \<Rightarrow> jsval" where
  "bell_timestamp e alarmData' =
     ors [get alarmData' ''timestamp'', get alarmData' ''createdTimestamp'', get alarmData' ''CreatedTimestamp'']
       (JStr (nowIso e))"

definition bell_code :: "jsobj \<Rightarrow> jsval" where
  "bell_code alarmData' =
     ors [get alarmData' ''alarmCode'', get alarmData' ''AlarmCode'',
          (if truthy (get alarmData' ''code'') then get alarmData' ''code'' else JStr [])]
       (JStr ''ALARM'')"

definition bell_device :: "jsobj \<Rightarrow> jsval" where
  "bell_device alarmData' =
     ors [get alarmData' ''deviceName'', get alarmData' ''DeviceName'',
          (if truthy (get alarmData' ''device'') then get alarmData' ''device'' else JStr [])]
       (JStr ''Unknown Device'')"

definition bell_format :: "env \<Rightarrow> jsobj \<Rightarrow> jsobj" where
  "bell_format e alarmData' =
     [(''_id'', ors [get alarmData' ''_id'', get alarmData' ''id''] (synth_id ''alarm'' e)),
      (''AlarmId'', ors [get alarmData' ''AlarmId'', get alarmData' ''alarmId'', get alarmData' ''id'']
                      (synth_id ''alarm'' e)),
      (''AlarmCode'', bell_code alarmData'),
      (''AlarmDescription'',
         ors [get alarmData' ''description'', get alarmData' ''AlarmDescription'',
              get alarmData' ''alarmDescription'', get alarmData' ''message'']
           (JStr ''New alarm notification'')),
      (''CreatedTimestamp'', bell_timestamp e alarmData'),
      (''DeviceId'', ors [get alarmData' ''deviceId'', get alarmData' ''DeviceId'', get alarmData' ''device''] (JStr [])),
      (''DeviceName'', bell_device alarmData'),
      (''PlantName'', ors [get alarmData' ''plantName'', get alarmData' ''PlantName'', get alarmData' ''plant''] (JStr [])),
      (''AlarmValue'', ors [get alarmData' ''alarmValue'', get alarmData' ''AlarmValue'', get alarmData' ''value''] (JStr [])),
      (''IsActive'', JBool True),
      (''IsRead'', JBool False),
      (''Source'', JStr ''websocket'')]"

definition processAlarm :: "(string \<Rightarrow> int option) \<Rightarrow> env \<Rightarrow> jsobj option \<Rightarrow> bell \<Rightarrow> bell" where
  "processAlarm dp e arg b =
     (case arg of
        None \<Rightarrow> b
      | Some alarmData' \<Rightarrow>
          if list_ex (bell_dup dp (bell_code alarmData') (bell_device alarmData')
                        (getTime dp (bell_timestamp e alarmData'))) (bellRef b)
          then b
          else b\<lparr>isLoading := False,
                 bellRef := bell_format e alarmData' # take 9 (bellRef b),
                 recentAlarms := take 5 (bell_format e alarmData' # take 9 (bellRef b)),
                 unreadCount := unreadCount b + 1\<rparr>)"

section \<open>The alarm normalizers of the backend\<close>

text \<open>
  \<open>typeof v !== 'undefined' ? v : d\<close> and \<open>v !== undefined ? v : d\<close>.
\<close>

definition defined_or :: "jsval \<Rightarrow> jsval \<Rightarrow> jsval" where
  "defined_or v d = (if v \<noteq> JUndefined then v else d)"

text \<open>
  \<open>normalizeAlarmObject(alarm, contextDeviceId = null)\<close> of the alarm controller.
  The file declares the function twice; the second declaration (lines 283-298) is the
  one in force and is the one embedded here. It differs from the first in the device
  id, which falls back to \<open>contextDeviceId\<close>: the device of the request, null when
  the argument is left out or undefined, and the array index where the function is
  handed to \<open>alarms.map\<close> as it is. The default timestamp \<open>new Date()\<close> is a Date
  object, which the JSON response carries as its ISO string.
\<close>

definition normalizeAlarmObject :: "env \<Rightarrow> jsobj \<Rightarrow> jsval \<Rightarrow> jsobj" where
  "normalizeAlarmObject e alarm contextDeviceId =
     [(''_id'', jor (get alarm ''_id'') (synth_id ''alarm'' e)),
      (''AlarmId'', ors [get alarm ''AlarmId'', get alarm ''alarmId''] (JStr [])),
      (''AlarmCode'', ors [get alarm ''AlarmCode'', get alarm ''alarmCode''] (JStr [])),
      (''AlarmDescription'',
         ors [get alarm ''AlarmDescription'', get alarm ''alarmDescription'', get alarm ''description'']
           (JStr [])),
      (''CreatedTimestamp'',
         ors [get alarm ''CreatedTimestamp'', get alarm ''createdTimestamp'', get alarm ''timestamp'']
           (JStr (nowIso e))),
      (''DeviceId'',
         ors [get alarm ''DeviceId'', get alarm ''deviceId'',
              if contextDeviceId = JUndefined then JNull else contextDeviceId] (JStr [])),
      (''DeviceName'', ors [get alarm ''DeviceName'', get alarm ''deviceName''] (JStr [])),
      (''PlantName'', ors [get alarm ''PlantName'', get alarm ''plantName''] (JStr [])),
      (''IsActive'', defined_or (get alarm ''IsActive'') (defined_or (get alarm ''isActive'') (JBool True))),
      (''IsRead'', defined_or (get alarm ''IsRead'') (defined_or (get alarm ''isRead'') (JBool False)))]"

text \<open>
  \<open>transformAlarmDocument\<close> of the server's own alarm routes; \<open>None\<close> is a
  null document, which it returns as null.
\<close>

definition transformAlarmDocument :: "env \<Rightarrow> jsobj option \<Rightarrow> jsobj option" where
  "transformAlarmDocument e arg =
     (case arg of
        None \<Rightarrow> None
      | Some doc \<Rightarrow> Some
          [(''_id'', ors [get doc ''_id'', get doc ''id''] (JStr (''alarm-'' @ show_int (now e)))),
           (''AlarmId'', ors [get doc ''AlarmId'', get doc ''alarmId'', get doc ''AlarmCode''] (JStr [])),
           (''AlarmCode'', ors [get doc ''AlarmCode'', get doc ''alarmCode''] (JStr [])),
           (''AlarmDescription'', ors [get doc ''AlarmDescription'', get doc ''alarmDescription''] (JStr [])),
           (''CreatedTimestamp'',
              ors [get doc ''CreatedTimestamp'', get doc ''createdTimestamp''] (JStr (nowIso e))),
           (''DeviceId'', ors [get doc ''DeviceId'', get doc ''deviceId''] (JStr [])),
           (''DeviceName'', ors [get doc ''DeviceName'', get doc ''deviceName''] (JStr [])),
           (''PlantName'', ors [get doc ''PlantName'', get doc ''plantName''] (JStr [])),
           (''IsActive'', defined_or (get doc ''IsActive'') (defined_or (get doc ''isActive'') (JBool True))),
           (''IsRead'', defined_or (get doc ''IsRead'') (defined_or (get doc ''isRead'') (JBool False)))])"

text \<open>
  The two casings of a field name: \<open>recase sel obj\<close> renames each PascalCase field
  that \<open>sel\<close> selects to its camelCase form (\<open>AlarmCode\<close> to \<open>alarmCode\<close>) and
  keeps the values and the order.
\<close>

definition pascal_fields :: "string list" where
  "pascal_fields = [''AlarmId'', ''AlarmCode'', ''AlarmDescription'', ''CreatedTimestamp'',
     ''DeviceId'', ''DeviceName'', ''PlantName'', ''IsActive'', ''IsRead'']"

definition decapitalize :: "string \<Rightarrow> string" where
  "decapitalize k = (case k of [] \<Rightarrow> [] | c # cs \<Rightarrow> lower_char c # cs)"

definition recase :: "(string \<Rightarrow> bool) \<Rightarrow> jsobj \<Rightarrow> jsobj" where
  "recase sel obj =
     map (\<lambda>(k, v). (if k \<in> set pascal_fields \<and> sel k then decapitalize k else k, v)) obj"

section \<open>The alarm API client (alarmService)\<close>

text \<open>
  The HTTP client is the service's collaborator: \<open>apiCall k\<close> is the outcome of
  the \<open>k\<close>-th invocation of the request, a response or a rejection with the axios
  error (its \<open>response.status\<close>, \<open>code\<close> and \<open>message\<close>, each possibly
  missing, as \<open>errStatus\<close>, \<open>errCode\<close> and \<open>errMessage\<close>). The result of an
  async function is the settled promise: \<open>Inr\<close> a value, \<open>Inl\<close> an exception that
  reaches the caller. The back-off delays between attempts are not modelled.
\<close>

record http_error =
  errStatus :: "int option"
  errCode :: "string option"
  errMessage :: "string option"

datatype resp_data = DataArray "jsobj list" | DataOther

record response =
  rstatus :: int
  rdata :: resp_data

type_synonym api = "nat \<Rightarrow> http_error + response"

definition isServerError :: "http_error \<Rightarrow> bool" where
  "isServerError err = (case errStatus err of None \<Rightarrow> False | Some s \<Rightarrow> 500 \<le> s \<and> s < 600)"

definition isNetworkError :: "http_error \<Rightarrow> bool" where
  "isNetworkError err \<longleftrightarrow>
     (case errStatus err of None \<Rightarrow> True | Some s \<Rightarrow> s = 0) \<and>
     ((case errCode err of None \<Rightarrow> False | Some c \<Rightarrow> c \<noteq> []) \<or>
      (case errMessage err of None \<Rightarrow> False
       | Some m \<Rightarrow> str_includes m ''timeout'' \<or> str_includes m ''network''))"

text \<open>
  \<open>apiCallWithRetry\<close>: the loop \<open>for (attempt = 0; attempt <= maxRetries;
  attempt++)\<close>, with \<open>left = maxRetries - attempt\<close>. An error that is neither a
  5xx response nor a network error is rethrown at once; the last attempt rethrows
  whatever it caught.
\<close>

fun retry_loop :: "api \<Rightarrow> nat \<Rightarrow> nat \<Rightarrow> http_error + response" where
  "retry_loop apiCall attempt 0 =
     (case apiCall attempt of Inr r \<Rightarrow> Inr r | Inl err \<Rightarrow> Inl err)"
| "retry_loop apiCall attempt (Suc left) =
     (case apiCall attempt of
        Inr r \<Rightarrow> Inr r
      | Inl err \<Rightarrow>
          if \<not> isServerError err \<and> \<not> isNetworkError err then Inl err
          else retry_loop apiCall (Suc attempt) left)"

definition apiCallWithRetry :: "api \<Rightarrow> nat \<Rightarrow> http_error + response" where
  "apiCallWithRetry apiCall maxRetries = retry_loop apiCall 0 maxRetries"

text \<open>
  The four operations wrap the call in \<open>try\<close>/\<open>catch\<close>; the bulk loads keep
  the response data when it is an array and the read marks report whether the status
  is a 2xx one.
\<close>

definition getAllAlarms :: "api \<Rightarrow> http_error + jsobj list" where
  "getAllAlarms apiCall =
     (case apiCallWithRetry apiCall 2 of
        Inr resp \<Rightarrow> Inr (case rdata resp of DataArray xs \<Rightarrow> xs | DataOther \<Rightarrow> [])
      | Inl err \<Rightarrow> Inr [])"

definition getAlarmsByDevice :: "jsval \<Rightarrow> api \<Rightarrow> http_error + jsobj list" where
  "getAlarmsByDevice deviceId apiCall =
     (if \<not> truthy deviceId then Inr []
      else case apiCallWithRetry apiCall 2 of
        Inr resp \<Rightarrow> Inr (case rdata resp of DataArray xs \<Rightarrow> xs | DataOther \<Rightarrow> [])
      | Inl err \<Rightarrow> Inr [])"

definition api_markAlarmAsRead :: "jsval \<Rightarrow> api \<Rightarrow> http_error + bool" where
  "api_markAlarmAsRead alarmId apiCall =
     (if \<not> truthy alarmId then Inr False
      else case apiCallWithRetry apiCall 2 of
        Inr resp \<Rightarrow> Inr (200 \<le> rstatus resp \<and> rstatus resp < 300)
      | Inl err \<Rightarrow> Inr False)"

definition markAllAlarmsAsRead :: "api \<Rightarrow> http_error + bool" where
  "markAllAlarmsAsRead apiCall =
     (case apiCallWithRetry apiCall 2 of
        Inr resp \<Rightarrow> Inr (200 \<le> rstatus resp \<and> rstatus resp < 300)
      | Inl err \<Rightarrow> Inr False)"

section \<open>The fan-out router of the server\<close>

text \<open>
  The handlers the server subscribes to the Redis channels \<open>telemetry\<close> and
  \<open>alarms\<close> (server entry file, lines 534-664). An emission is the target
  (\<open>io.emit\<close>: every client; \<open>io.to(room).emit\<close>: a room; \<open>socket.emit\<close>: one
  socket), the event name and the payload. The handler's argument is the parsed
  message, \<open>None\<close> when \<open>JSON.parse\<close> fails; \<open>sockets\<close> are the ids of the
  connected sockets (the keys of a Map, so distinct). An exception ends the handler
  in its \<open>catch\<close>: what was emitted before stays emitted.
\<close>

datatype target = Global | Room string | ToSocket string

datatype payload = Plain jsobj | Wrapped string jsobj

type_synonym emission = "target \<times> string \<times> payload"

text \<open>
  \<open>v?.toLowerCase()\<close>: \<open>Some None\<close> is \<open>undefined\<close> (the chain stops on a null
  or undefined \<open>v\<close>), \<open>None\<close> a TypeError (\<open>v\<close> is not a string).
\<close>

fun lower_opt :: "jsval \<Rightarrow> string option option" where
  "lower_opt JUndefined = Some None"
| "lower_opt JNull = Some None"
| "lower_opt (JStr s) = Some (Some (toLowerCase s))"
| "lower_opt (JBool b) = None"
| "lower_opt (JNum n) = None"

definition tel_deviceId :: "jsobj \<Rightarrow> jsval" where
  "tel_deviceId telemetryData = jor (get telemetryData ''deviceId'') (get telemetryData ''device'')"

definition tel_deviceName :: "jsobj \<Rightarrow> jsval" where
  "tel_deviceName telemetryData =
     ors [get telemetryData ''deviceName'', get telemetryData ''DeviceName''] (tel_deviceId telemetryData)"

definition isEsp32_04 :: "jsobj \<Rightarrow> bool option" where
  "isEsp32_04 telemetryData =
     (if tel_deviceId telemetryData = JStr ''esp32_04'' then Some True
      else case lower_opt (tel_deviceName telemetryData) of
        None \<Rightarrow> None
      | Some n \<Rightarrow>
          if (case n of None \<Rightarrow> False | Some s \<Rightarrow> str_includes s ''esp32_04'') then Some True
          else case lower_opt (get telemetryData ''device'') of
            None \<Rightarrow> None
          | Some d \<Rightarrow>
              if d = Some ''esp32_04'' then Some True
              else case lower_opt (get telemetryData ''deviceId'') of
                None \<Rightarrow> None
              | Some i \<Rightarrow> Some (i = Some ''esp32_04''))"

text \<open>
  The plant of a telemetry event: the explicit \<open>plantName\<close>, else inferred from the
  device name (\<open>deviceName.includes\<close> is a TypeError when the name is not a string).
\<close>

definition tel_plantName :: "jsobj \<Rightarrow> jsval option" where
  "tel_plantName telemetryData =
     (if truthy (get telemetryData ''plantName'') then Some (get telemetryData ''plantName'')
      else case tel_deviceName telemetryData of
        JStr s \<Rightarrow> Some (JStr (if str_includes s ''esp32_04'' then ''Plant D'' else ''Plant C''))
      | _ \<Rightarrow> None)"

definition tel_plant_emit :: "jsobj \<Rightarrow> emission list" where
  "tel_plant_emit telemetryData =
     (case tel_plantName telemetryData of
        None \<Rightarrow> []
      | Some plantName \<Rightarrow>
          [(Room (''plant:'' @ show_int (if plantName = JStr ''Plant D'' then 2 else 1)),
            ''telemetry'', Plain telemetryData)])"

definition telemetry_handler :: "string list \<Rightarrow> jsobj option \<Rightarrow> emission list" where
  "telemetry_handler sockets msg =
     (case msg of
        None \<Rightarrow> []
      | Some telemetryData \<Rightarrow>
          (case isEsp32_04 telemetryData of
             None \<Rightarrow> []
           | Some True \<Rightarrow>
               [(Global, ''telemetry'', Plain telemetryData),
                (Global, ''telemetry_esp32_04'', Plain telemetryData),
                (Room ''device:esp32_04'', ''telemetry-esp32_04'', Plain telemetryData),
                (Global, ''broadcast'', Wrapped ''esp32_04_data'' telemetryData)] @
               map (\<lambda>socket. (ToSocket socket, ''telemetry-esp32_04'', Plain telemetryData)) sockets @
               tel_plant_emit telemetryData
           | Some False \<Rightarrow>
               (Room (''device:'' @ to_string (tel_deviceId telemetryData)), ''telemetry'',
                Plain telemetryData) #
               tel_plant_emit telemetryData))"

definition alarm_deviceId :: "jsobj \<Rightarrow> jsval" where
  "alarm_deviceId alarmData' = jor (get alarmData' ''deviceId'') (get alarmData' ''DeviceId'')"

definition alarm_plantId :: "jsobj \<Rightarrow> jsval" where
  "alarm_plantId alarmData' =
     jor (get alarmData' ''plantId'')
       (if get alarmData' ''plantName'' = JStr ''Plant D'' then JNum 2 else JNum 1)"

text \<open>
  The notification payload (\<open>notificationData\<close>) built 200 ms later in the timer
  callback; \<open>deviceId.includes\<close> is reached only when no plant name is given and
  is a TypeError unless the device id is a string.
\<close>

definition notif_plantName :: "jsobj \<Rightarrow> jsval option" where
  "notif_plantName alarmData' =
     (if truthy (get alarmData' ''plantName'') then Some (get alarmData' ''plantName'')
      else if truthy (get alarmData' ''PlantName'') then Some (get alarmData' ''PlantName'')
      else case alarm_deviceId alarmData' of
        JStr s \<Rightarrow> Some (JStr (if str_includes s ''esp32_04'' then ''Plant D'' else ''Plant C''))
      | _ \<Rightarrow> None)"

definition notification_payload :: "env \<Rightarrow> jsobj \<Rightarrow> jsobj option" where
  "notification_payload e alarmData' =
     (case notif_plantName alarmData' of
        None \<Rightarrow> None
      | Some plantName \<Rightarrow> Some
          [(''id'', ors [get alarmData' ''_id'', get alarmData' ''id''] (synth_id ''alarm'' e)),
           (''deviceId'', alarm_deviceId alarmData'),
           (''deviceName'', ors [get alarmData' ''deviceName'', get alarmData' ''DeviceName'']
                              (JStr ''Unknown Device'')),
           (''plantName'', plantName),
           (''alarmCode'', ors [get alarmData' ''alarmCode'', get alarmData' ''AlarmCode''] (JStr ''ALARM'')),
           (''alarmDescription'',
              ors [get alarmData' ''alarmDescription'', get alarmData' ''AlarmDescription'']
                (JStr ''New alarm'')),
           (''alarmValue'', ors [get alarmData' ''alarmValue'', get alarmData' ''value''] (JStr [])),
           (''message'', ors [get alarmData' ''message'', get alarmData' ''Message''] (JStr [])),
           (''description'',
              ors [get alarmData' ''description'', get alarmData' ''desc'',
                   get alarmData' ''alarmDescription'', get alarmData' ''AlarmDescription''] (JStr [])),
           (''status'', jor (get alarmData' ''status'') (JStr ''New'')),
           (''severity'', jor (get alarmData' ''severity'') (JStr ''Warning'')),
           (''createdTimestamp'',
              ors [get alarmData' ''createdTimestamp'', get alarmData' ''CreatedTimestamp'']
                (JStr (nowIso e))),
           (''isRead'', JBool False)])"

definition alarms_handler :: "env \<Rightarrow> jsobj option \<Rightarrow> emission list" where
  "alarms_handler e msg =
     (case msg of
        None \<Rightarrow> []
      | Some alarmData' \<Rightarrow>
          [(Global, ''alarm'', Plain alarmData')] @
          (if truthy (alarm_deviceId alarmData')
           then [(Room (''device:'' @ to_string (alarm_deviceId alarmData')), ''alarm'', Plain alarmData')]
           else []) @
          [(Room (''plant:'' @ to_string (alarm_plantId alarmData')), ''alarm'', Plain alarmData')] @
          (case notification_payload e alarmData' of
             None \<Rightarrow> []
           | Some n \<Rightarrow> [(Global, ''alarm_notification'', Plain n)]))"

text \<open>The room or channel an emission goes into: its target and its event name.\<close>

definition channel :: "emission \<Rightarrow> target \<times> string" where
  "channel em = (fst em, fst (snd em))"

definition targets :: "emission list \<Rightarrow> target set" where
  "targets ems = fst ` set ems"

section \<open>The client subscription manager (socketService.js)\<close>

text \<open>
  The service object with its socket. A callback is known by its identity. The socket
  of the socket.io client library is its \<open>connected\<close> flag and the handlers
  registered with \<open>socket.on\<close>, in order; a handler is one of the closures the
  service registers. Three fields record effects: \<open>outbox\<close> the \<open>socket.emit\<close>
  calls, \<open>calls\<close> the callbacks invoked, \<open>busEvents\<close> the events put on the
  event bus. Device ids are strings, the empty string standing for the falsy ids the
  guards reject; a plant id is any value.
\<close>

type_synonym cb = nat

datatype handler =
    HConnect | HDisconnect | HConnectError
  | HTelemetry cb jsval
  | HAlarm | HAlarmNotification | HNotification

record sock =
  sconnected :: bool
  handlers :: "(string \<times> handler) list"

datatype active = ACallback cb | ATrue

datatype cpayload = PVal jsval | PObj jsobj

record service =
  socket :: "sock option"
  connected :: bool
  listeners :: "string \<rightharpoonup> cb list"
  activeListeners :: "string \<rightharpoonup> active"
  pendingSubscriptions :: "string list"
  connectionCallbacks :: "cb list"
  disconnectionCallbacks :: "cb list"
  cache :: cache
  outbox :: "(string \<times> cpayload) list"
  calls :: "cb list"
  busEvents :: "jsobj list"

datatype disposer = DNoop | DTelemetry cb string | DListener string cb

definition callbacks_of :: "service \<Rightarrow> string \<Rightarrow> cb list" where
  "callbacks_of s ev = (case listeners s ev of None \<Rightarrow> [] | Some l \<Rightarrow> l)"

definition emit :: "string \<Rightarrow> cpayload \<Rightarrow> service \<Rightarrow> service" where
  "emit ev p s = s\<lparr>outbox := outbox s @ [(ev, p)]\<rparr>"

definition hasListeners :: "string \<Rightarrow> sock \<Rightarrow> bool" where
  "hasListeners ev k = list_ex (\<lambda>r. fst r = ev) (handlers k)"

definition sock_off :: "string \<Rightarrow> service \<Rightarrow> service" where
  "sock_off ev s =
     (case socket s of
        None \<Rightarrow> s
      | Some k \<Rightarrow> s\<lparr>socket := Some (k\<lparr>handlers := filter (\<lambda>r. fst r \<noteq> ev) (handlers k)\<rparr>)\<rparr>)"

definition sock_on :: "string \<Rightarrow> handler \<Rightarrow> service \<Rightarrow> service" where
  "sock_on ev h s =
     (case socket s of
        None \<Rightarrow> s
      | Some k \<Rightarrow> s\<lparr>socket := Some (k\<lparr>handlers := handlers k @ [(ev, h)]\<rparr>)\<rparr>)"

definition isConnected :: "service \<Rightarrow> bool" where
  "isConnected s \<longleftrightarrow> connected s \<and> (case socket s of None \<Rightarrow> False | Some k \<Rightarrow> sconnected k)"

text \<open>
  The \<open>disconnect\<close> handler, and \<open>socket.disconnect()\<close> of the library, which
  fires the \<open>disconnect\<close> handlers of a connected socket before it returns.
\<close>

definition disconnect_handler :: "service \<Rightarrow> service" where
  "disconnect_handler s = s\<lparr>connected := False, calls := calls s @ disconnectionCallbacks s\<rparr>"

definition socket_disconnect :: "service \<Rightarrow> service" where
  "socket_disconnect s =
     (case socket s of
        None \<Rightarrow> s
      | Some k \<Rightarrow>
          if sconnected k
          then (disconnect_handler ^^ length (filter (\<lambda>r. r = (''disconnect'', HDisconnect)) (handlers k)))
                 (s\<lparr>socket := Some (k\<lparr>sconnected := False\<rparr>)\<rparr>)
          else s)"

text \<open>
  \<open>connect()\<close>: an existing socket is disconnected and stripped of its handlers; the
  new socket is not connected yet and carries the three connection handlers. The
  service's own \<open>connected\<close> flag is not written here.
\<close>

definition new_socket :: sock where
  "new_socket = \<lparr>sconnected = False,
     handlers = [(''connect'', HConnect), (''disconnect'', HDisconnect),
                 (''connect_error'', HConnectError)]\<rparr>"

definition connect :: "service \<Rightarrow> service" where
  "connect s = (socket_disconnect s)\<lparr>socket := Some new_socket\<rparr>"

text \<open>A JavaScript Set keeps insertion order and ignores a value it already holds.\<close>

definition set_add :: "string \<Rightarrow> string list \<Rightarrow> string list" where
  "set_add x xs = (if x \<in> set xs then xs else xs @ [x])"

definition subscribeToDevice :: "string \<Rightarrow> service \<Rightarrow> service" where
  "subscribeToDevice deviceId s =
     (if deviceId = [] then s
      else if deviceId \<in> set (pendingSubscriptions s) then s
      else
        let kept = filter (\<lambda>sub. \<not> (sub \<noteq> ''plant-'' @ to_string (currentPlant (cache s)) \<and>
                                     sub \<noteq> deviceId)) (pendingSubscriptions s);
            s1 = s\<lparr>pendingSubscriptions := set_add deviceId kept\<rparr>
        in if socket s1 = None \<or> \<not> connected s1 then connect s1
           else emit ''subscribe'' (PVal (JStr deviceId)) s1)"

definition subscribeToPlant :: "jsval \<Rightarrow> service \<Rightarrow> service" where
  "subscribeToPlant plantId s =
     (if \<not> truthy plantId \<and> plantId \<noteq> JNum 0 then s
      else
        let plantKey = ''plant-'' @ to_string plantId
        in if plantKey \<in> set (pendingSubscriptions s) then s
           else
             let kept = filter (\<lambda>sub. \<not> (startsWith sub ''plant-'' \<and> sub \<noteq> plantKey))
                          (pendingSubscriptions s);
                 s1 = s\<lparr>pendingSubscriptions := set_add plantKey kept\<rparr>
             in if socket s1 = None \<or> \<not> connected s1 then connect s1
                else emit ''subscribe-plant'' (PVal plantId) s1)"

definition removeAllTelemetryListeners :: "service \<Rightarrow> service" where
  "removeAllTelemetryListeners s =
     (case socket s of
        None \<Rightarrow> s
      | Some k \<Rightarrow>
          let s1 = (if truthy (currentDevice (cache s))
                    then sock_off (''telemetry-'' @ to_string (currentDevice (cache s)))
                           (sock_off (''telemetry_'' @ to_string (currentDevice (cache s))) s)
                    else s);
              s2 = sock_off ''telemetry'' s1
          in s2\<lparr>activeListeners := (activeListeners s2)(''telemetry'' := None)\<rparr>)"

definition listenerKey :: "jsval \<Rightarrow> string" where
  "listenerKey device = (if truthy device then ''telemetry-'' @ to_string device else ''telemetry-global'')"

definition onTelemetry :: "cb \<Rightarrow> jsval \<Rightarrow> service \<Rightarrow> service \<times> disposer option" where
  "onTelemetry callback device s =
     (case socket s of
        None \<Rightarrow> (connect s, Some DNoop)
      | Some k \<Rightarrow>
          let s1 = (if \<not> isConnected s then connect s else s);
              s2 = (if listeners s1 ''telemetry'' = None
                    then s1\<lparr>listeners := (listeners s1)(''telemetry'' \<mapsto> [])\<rparr> else s1);
              s3 = removeAllTelemetryListeners s2;
              s4 = s3\<lparr>activeListeners := (activeListeners s3)(listenerKey device \<mapsto> ACallback callback)\<rparr>;
              s5 = sock_on ''telemetry'' (HTelemetry callback device) s4;
              s6 = s5\<lparr>listeners := (listeners s5)(''telemetry'' \<mapsto> callbacks_of s5 ''telemetry'' @ [callback])\<rparr>
          in (s6, Some (DTelemetry callback (listenerKey device))))"

text \<open>
  \<open>onAlarm\<close> and \<open>onAlarmNotification\<close> are the same text up to the event name
  and the handler they install; \<open>listen\<close> is that text.
\<close>

definition listen :: "string \<Rightarrow> handler \<Rightarrow> env \<Rightarrow> cb \<Rightarrow> service \<Rightarrow> service \<times> disposer option" where
  "listen ev h e callback s =
     (case socket s of
        None \<Rightarrow>
          (let s1 = connect s
           in s1\<lparr>listeners := (listeners s1)(''_pending_'' @ ev \<mapsto>
                    callbacks_of s1 (''_pending_'' @ ev) @ [callback])\<rparr>,
           None)
      | Some k \<Rightarrow>
          let s1 = (if hasListeners ev k then sock_off ev s else s);
              s2 = s1\<lparr>listeners := (listeners s1)(ev \<mapsto> [callback])\<rparr>;
              s3 = sock_on ev h s2;
              s4 = (if isConnected s3
                    then emit ''test-connection''
                           (PObj [(''channel'', JStr ev), (''timestamp'', JNum (now e))]) s3
                    else s3)
          in (s4, Some (DListener ev callback)))"

definition onAlarm :: "env \<Rightarrow> cb \<Rightarrow> service \<Rightarrow> service \<times> disposer option" where
  "onAlarm = listen ''alarm'' HAlarm"

definition onAlarmNotification :: "env \<Rightarrow> cb \<Rightarrow> service \<Rightarrow> service \<times> disposer option" where
  "onAlarmNotification = listen ''alarm_notification'' HAlarmNotification"

definition removeListener :: "string \<Rightarrow> cb \<Rightarrow> service \<Rightarrow> service" where
  "removeListener ev callback s =
     (case listeners s ev of
        None \<Rightarrow> s
      | Some callbacks \<Rightarrow> s\<lparr>listeners := (listeners s)(ev \<mapsto> remove1 callback callbacks)\<rparr>)"

definition subscribeToNotifications :: "service \<Rightarrow> service" where
  "subscribeToNotifications s =
     (if socket s = None \<or> \<not> connected s
      then s\<lparr>pendingSubscriptions := set_add ''notifications'' (pendingSubscriptions s)\<rparr>
      else
        let s1 = emit ''subscribe-notifications'' (PObj [(''type'', JNull)]) s
        in s1\<lparr>pendingSubscriptions := set_add ''notifications'' (pendingSubscriptions s1)\<rparr>)"

definition onNotification :: "cb \<Rightarrow> service \<Rightarrow> service \<times> disposer option" where
  "onNotification callback s =
     (let s1 = s\<lparr>listeners := (listeners s)(''notification'' \<mapsto> callbacks_of s ''notification'' @ [callback])\<rparr>;
          s2 = (if activeListeners s1 ''notification'' = None \<and> socket s1 \<noteq> None
                then (sock_on ''notification'' HNotification s1)
                       \<lparr>activeListeners := (activeListeners s1)(''notification'' \<mapsto> ATrue)\<rparr>
                else s1)
      in (subscribeToNotifications s2, None))"

text \<open>
  Running a disposer. The one of \<open>onTelemetry\<close> ends with
  \<open>this.socket.off('telemetry')\<close>, a TypeError when the socket is null by then: the
  second component tells whether the disposer returned normally.
\<close>

definition run_disposer :: "disposer \<Rightarrow> service \<Rightarrow> service \<times> bool" where
  "run_disposer d s =
     (case d of
        DNoop \<Rightarrow> (s, True)
      | DListener ev callback \<Rightarrow> (removeListener ev callback s, True)
      | DTelemetry callback key \<Rightarrow>
          let s1 = removeListener ''telemetry'' callback s;
              s2 = s1\<lparr>activeListeners := (activeListeners s1)(key := None)\<rparr>
          in if socket s2 = None then (s2, False) else (sock_off ''telemetry'' s2, True))"

definition notification_dup :: "jsobj \<Rightarrow> jsval \<Rightarrow> jsobj \<Rightarrow> bool" where
  "notification_dup newNotification notificationId n \<longleftrightarrow>
     get n ''_id'' = notificationId \<or> get n ''NotificationId'' = notificationId \<or>
     (truthy (get newNotification ''timestamp'') \<and>
      get n ''CreatedTimestamp'' = get newNotification ''timestamp'')"

definition notification_id :: "jsobj \<Rightarrow> jsval" where
  "notification_id newNotification =
     ors [get newNotification ''id'', get newNotification ''_id'', get newNotification ''NotificationId'']
       (JStr [])"

definition notification_format :: "env \<Rightarrow> jsobj \<Rightarrow> jsobj" where
  "notification_format e newNotification =
     [(''_id'', jor (notification_id newNotification) (synth_id ''notification'' e)),
      (''NotificationId'',
         ors [get newNotification ''id'', get newNotification ''notificationId'',
              get newNotification ''NotificationId''] (JStr [])),
      (''Type'', ors [get newNotification ''type'', get newNotification ''Type''] (JStr ''general'')),
      (''Message'', ors [get newNotification ''message'', get newNotification ''Message''] (JStr [])),
      (''Title'', ors [get newNotification ''title'', get newNotification ''Title''] (JStr [])),
      (''CreatedTimestamp'',
         ors [get newNotification ''timestamp'', get newNotification ''createdTimestamp'',
              get newNotification ''CreatedTimestamp''] (JStr (nowIso e))),
      (''DeviceId'', ors [get newNotification ''deviceId'', get newNotification ''DeviceId''] (JStr [])),
      (''DeviceName'', ors [get newNotification ''deviceName'', get newNotification ''DeviceName''] (JStr [])),
      (''PlantId'', ors [get newNotification ''plantId'', get newNotification ''PlantId''] (JStr [])),
      (''PlantName'', ors [get newNotification ''plantName'', get newNotification ''PlantName''] (JStr [])),
      (''IsRead'', JBool False)]"

definition addNotificationToCache :: "env \<Rightarrow> jsobj option \<Rightarrow> cache \<Rightarrow> cache" where
  "addNotificationToCache e arg c =
     (case arg of
        None \<Rightarrow> c
      | Some newNotification \<Rightarrow>
          if list_ex (notification_dup newNotification (notification_id newNotification))
               (notificationData c)
          then c
          else c\<lparr>notificationData := notification_format e newNotification # notificationData c\<rparr>)"

text \<open>
  The handlers. The telemetry handler passes the event on when no device was asked
  for, or the event's device equals it, or one name contains the other
  (\<open>includes\<close> on a value that is not a string is a TypeError: \<open>None\<close>, and
  nothing is passed on). The alarm handlers stamp the event, merge it into the cache,
  put it on the event bus and call every callback registered for their event.
\<close>

definition tel_filter :: "jsval \<Rightarrow> jsval \<Rightarrow> bool option" where
  "tel_filter device deviceId =
     (if \<not> truthy device then Some True
      else if deviceId = device then Some True
      else case deviceId of
        JStr d \<Rightarrow>
          if str_includes d (to_string device) then Some True
          else (case device of JStr v \<Rightarrow> Some (str_includes v d) | _ \<Rightarrow> None)
      | _ \<Rightarrow> None)"

definition stamp :: "env \<Rightarrow> jsobj \<Rightarrow> jsobj" where
  "stamp e data =
     put ''_uniqueId'' (JStr (show_int (now e) @ ''-'' @ rnd e)) (put ''_receivedAt'' (JNum (now e)) data)"

definition alarm_handler :: "string \<Rightarrow> env \<Rightarrow> jsobj \<Rightarrow> service \<Rightarrow> service" where
  "alarm_handler ev e data s =
     s\<lparr>cache := addAlarmToCache e (Some (stamp e data)) (cache s),
       busEvents := busEvents s @ [stamp e data],
       calls := calls s @ callbacks_of s ev\<rparr>"

definition notification_handler :: "env \<Rightarrow> jsobj \<Rightarrow> service \<Rightarrow> service" where
  "notification_handler e data s =
     s\<lparr>cache := addNotificationToCache e (Some data) (cache s),
       calls := calls s @ callbacks_of s ''notification''\<rparr>"

text \<open>
  The \<open>connect\<close> handler: it sets the flag, replays the pending subscriptions in
  the order of the set, registers the listeners that were queued while there was no
  socket, and calls the connection callbacks.
\<close>

definition replay :: "string \<Rightarrow> string \<times> cpayload" where
  "replay sub =
     (if startsWith sub ''plant-'' then (''subscribe-plant'', PVal (JStr (replace_first sub ''plant-'')))
      else (''subscribe'', PVal (JStr sub)))"

definition register_pending :: "env \<Rightarrow> string \<Rightarrow> cb \<Rightarrow> service \<Rightarrow> service" where
  "register_pending e eventType callback s =
     (if eventType = ''alarm'' then fst (onAlarm e callback s)
      else if eventType = ''alarm_notification'' then fst (onAlarmNotification e callback s)
      else if eventType = ''telemetry'' then fst (onTelemetry callback JUndefined s)
      else s)"

definition process_pending :: "env \<Rightarrow> string \<Rightarrow> service \<Rightarrow> service" where
  "process_pending e pendingType s =
     (case listeners s pendingType of
        None \<Rightarrow> s
      | Some cbs \<Rightarrow>
          if length cbs > 0
          then let s1 = fold (register_pending e (replace_first pendingType ''_pending_'')) cbs s
               in s1\<lparr>listeners := (listeners s1)(pendingType := None)\<rparr>
          else s)"

definition connect_handler :: "env \<Rightarrow> service \<Rightarrow> service" where
  "connect_handler e s =
     (let s1 = s\<lparr>connected := True\<rparr>;
          s2 = s1\<lparr>outbox := outbox s1 @ map replay (pendingSubscriptions s1)\<rparr>;
          s3 = fold (process_pending e)
                 [''_pending_alarm'', ''_pending_alarm_notification'', ''_pending_telemetry''] s2
      in s3\<lparr>calls := calls s3 @ connectionCallbacks s3\<rparr>)"

definition run_handler :: "env \<Rightarrow> jsobj \<Rightarrow> handler \<Rightarrow> service \<Rightarrow> service" where
  "run_handler e data h s =
     (case h of
        HConnect \<Rightarrow> connect_handler e s
      | HDisconnect \<Rightarrow> disconnect_handler s
      | HConnectError \<Rightarrow> s\<lparr>connected := False\<rparr>
      | HTelemetry callback device \<Rightarrow>
          (case tel_filter device (ors [get data ''device'', get data ''deviceId''] (JStr ''unknown'')) of
             Some True \<Rightarrow> s\<lparr>calls := calls s @ [callback]\<rparr>
           | _ \<Rightarrow> s)
      | HAlarm \<Rightarrow> alarm_handler ''alarm'' e data s
      | HAlarmNotification \<Rightarrow> alarm_handler ''alarm_notification'' e data s
      | HNotification \<Rightarrow> notification_handler e data s)"

text \<open>
  An event arriving on the socket runs the handlers registered for its name, in
  order; the transport reporting the connection sets the socket's flag and raises
  \<open>connect\<close>.
\<close>

definition deliver :: "env \<Rightarrow> string \<Rightarrow> jsobj \<Rightarrow> service \<Rightarrow> service" where
  "deliver e ev data s =
     (case socket s of
        None \<Rightarrow> s
      | Some k \<Rightarrow> fold (run_handler e data) (map snd (filter (\<lambda>r. fst r = ev) (handlers k))) s)"

definition socket_connected :: "env \<Rightarrow> service \<Rightarrow> service" where
  "socket_connected e s =
     (case socket s of
        None \<Rightarrow> s
      | Some k \<Rightarrow> deliver e ''connect'' [] (s\<lparr>socket := Some (k\<lparr>sconnected := True\<rparr>)\<rparr>))"

text \<open>Registering the same callback \<open>n\<close> times.\<close>

definition registered :: "nat \<Rightarrow> (service \<Rightarrow> service \<times> disposer option) \<Rightarrow> service \<Rightarrow> service" where
  "registered n reg = (\<lambda>s. fst (reg s)) ^^ n"

section \<open>Sample data\<close>

definition demo_alarm :: "string \<Rightarrow> string \<Rightarrow> jsval \<Rightarrow> jsobj" where
  "demo_alarm i code ts =
     [(''_id'', JStr i), (''AlarmId'', JStr i), (''AlarmCode'', JStr code),
      (''AlarmDescription'', JStr ''Gas level high''), (''CreatedTimestamp'', ts),
      (''DeviceId'', JStr ''esp32_04''), (''DeviceName'', JStr ''esp32_04''),
      (''PlantName'', JStr ''Plant D''), (''IsActive'', JBool True), (''IsRead'', JBool False)]"

definition empty_cache :: cache where
  "empty_cache = \<lparr>alarmsInitialDataLoaded = False, alarmData = [],
     notificationsInitialDataLoaded = False, notificationData = [],
     lastFetchTime = None, lastNotificationFetchTime = None,
     currentPlant = JNull, currentDevice = JNull\<rparr>"

definition demo_cache :: cache where
  "demo_cache = empty_cache\<lparr>alarmsInitialDataLoaded := True,
     alarmData := [demo_alarm ''a1'' ''IO_ALR_108'' (JStr ''2025-05-16T10:00:00.000Z''),
                   demo_alarm ''a2'' ''IO_ALR_109'' (JStr ''2025-05-16T09:00:00.000Z'')]\<rparr>"

definition sample_dates :: "string \<Rightarrow> int option" where
  "sample_dates s =
     (if s = ''2025-05-16T09:00:00.000Z'' then Some 1747386000000
      else if s = ''2025-05-16T10:00:00.000Z'' then Some 1747389600000
      else if s = ''2025-05-16T10:00:01.000Z'' then Some 1747389601000
      else None)"

definition env1 :: env where
  "env1 = \<lparr>now = 1747389601000, nowIso = ''2025-05-16T10:00:01.000Z'', rnd = ''k3x9q''\<rparr>"

definition env2 :: env where
  "env2 = \<lparr>now = 1747389601200, nowIso = ''2025-05-16T10:00:01.200Z'', rnd = ''p7wma''\<rparr>"

definition older_alarm :: jsobj where
  "older_alarm = [(''id'', JStr ''a0''), (''alarmCode'', JStr ''IO_ALR_109''),
     (''deviceName'', JStr ''esp32_04''), (''timestamp'', JStr ''2025-05-16T09:00:00.000Z'')]"

definition loaded_cache :: cache where
  "loaded_cache = cacheAlarmData env1
     [demo_alarm ''a1'' ''IO_ALR_108'' (JStr ''2025-05-16T10:00:00.000Z'')] empty_cache"

definition push_event :: jsobj where
  "push_event = [(''alarmCode'', JStr ''IO_ALR_108''),
     (''alarmDescription'', JStr ''Gas level high''), (''deviceId'', JStr ''esp32_04''),
     (''deviceName'', JStr ''esp32_04''), (''plantName'', JStr ''Plant D''),
     (''createdTimestamp'', JStr ''2025-05-16T10:00:00.000Z'')]"

definition empty_tab :: tab where
  "empty_tab = \<lparr>alarmsRef = [], alarms = [], dataSource = ''loading''\<rparr>"

definition empty_bell :: bell where
  "empty_bell = \<lparr>bellRef = [], recentAlarms = [], unreadCount = 0, isLoading = True\<rparr>"

definition alias_event :: jsobj where
  "alias_event = [(''alarmId'', JStr ''A-17''), (''alarmCode'', JStr ''IO_ALR_108''),
     (''deviceName'', JStr ''esp32_04''), (''createdTimestamp'', JStr ''2025-05-16T10:00:00.000Z'')]"

definition stale_event :: jsobj where
  "stale_event = [(''AlarmCode'', JStr ''IO_ALR_109''), (''DeviceName'', JStr ''esp32_04''),
     (''CreatedTimestamp'', JStr ''2025-05-16T09:00:00.000Z'')]"

definition tab_once :: "tab \<times> cache" where
  "tab_once = handleNewAlarm sample_dates env1 JUndefined JUndefined (Some push_event)
     (empty_tab, empty_cache)"

definition tab_twice :: "tab \<times> cache" where
  "tab_twice = handleNewAlarm sample_dates env2 JUndefined JUndefined (Some push_event) tab_once"

definition service_down :: api where
  "service_down =
     (\<lambda>attempt. Inl \<lparr>errStatus = None, errCode = Some ''ECONNREFUSED'',
                       errMessage = Some ''Network Error''\<rparr>)"

definition no_alarms :: api where
  "no_alarms = (\<lambda>attempt. Inr \<lparr>rstatus = 200, rdata = DataArray []\<rparr>)"

definition pascal_alarm :: jsobj where
  "pascal_alarm = [(''_id'', JStr ''665f1c2e9b1e8a0012345678''), (''AlarmCode'', JStr ''IO_ALR_108''),
     (''DeviceId'', JStr ''esp32_04''), (''CreatedTimestamp'', JStr ''2025-05-16T10:00:00.000Z'')]"

definition camel_alarm :: jsobj where
  "camel_alarm = [(''_id'', JStr ''665f1c2e9b1e8a0012345678''), (''alarmCode'', JStr ''IO_ALR_108''),
     (''deviceId'', JStr ''esp32_04''), (''createdTimestamp'', JStr ''2025-05-16T10:00:00.000Z'')]"

definition telemetry_esp32_01 :: jsobj where
  "telemetry_esp32_01 = [(''deviceId'', JStr ''esp32_01''), (''temperature'', JNum 25),
     (''humidity'', JNum 40)]"

definition telemetry_esp32_04 :: jsobj where
  "telemetry_esp32_04 = [(''device'', JStr ''esp32_04''), (''deviceId'', JStr ''esp32_04''),
     (''temperature'', JNum 25), (''plantName'', JStr ''Plant D'')]"

definition alarm_108 :: jsobj where
  "alarm_108 = [(''AlarmCode'', JStr ''IO_ALR_108''), (''DeviceId'', JStr ''esp32_04'')]"

definition alarm_plant_2 :: jsobj where
  "alarm_plant_2 = [(''AlarmCode'', JStr ''IO_ALR_108''), (''DeviceId'', JStr ''esp32_04''),
     (''plantId'', JNum 2)]"

definition alarm_plant_d :: jsobj where
  "alarm_plant_d = [(''AlarmCode'', JStr ''IO_ALR_108''), (''DeviceId'', JStr ''esp32_04''),
     (''PlantName'', JStr ''Plant D'')]"

text \<open>
  The service as its constructor and the module's \<open>connect()\<close> leave it, before the
  transport has connected.
\<close>

definition constructed :: service where
  "constructed = \<lparr>socket = None, connected = False, listeners = Map.empty,
     activeListeners = Map.empty, pendingSubscriptions = [], connectionCallbacks = [],
     disconnectionCallbacks = [], cache = empty_cache, outbox = [], calls = [], busEvents = []\<rparr>"

definition initial :: service where
  "initial = connect constructed"

definition sample_notification :: jsobj where
  "sample_notification = [(''id'', JStr ''n1''), (''type'', JStr ''alarm''),
     (''title'', JStr ''Gas level high''), (''message'', JStr ''IO_ALR_108 on esp32_04''),
     (''timestamp'', JStr ''2025-05-16T10:00:00.000Z'')]"

definition two_devices :: service where
  "two_devices = subscribeToDevice ''esp32_04'' (subscribeToDevice ''esp32_01'' initial)"

definition device_and_plant :: service where
  "device_and_plant = subscribeToPlant (JNum 2) (subscribeToDevice ''esp32_04'' initial)"

definition plant_then_device :: service where
  "plant_then_device = subscribeToDevice ''esp32_04'' (subscribeToPlant (JNum 2) initial)"

section \<open>Properties\<close>

subsection \<open>Objects\<close>

lemma get_replace_prop:
  "get (replace_prop k v obj) f = (if f = k \<and> has_key obj k then v else get obj f)"
  by (induction obj) auto

lemma get_put: "get (put k v obj) f = (if f = k then v else get obj f)"
proof (cases "has_key obj k")
  case True
  then show ?thesis by (simp add: put_def get_replace_prop)
next
  case False
  have "get (obj @ [(k, v)]) f = (if has_key obj f then get obj f else if f = k then v else JUndefined)"
    for obj :: jsobj
    by (induction obj) auto
  moreover have "\<not> has_key obj f \<Longrightarrow> get obj f = JUndefined" for obj :: jsobj
    by (induction obj) auto
  ultimately show ?thesis using False by (auto simp: put_def)
qed

subsection \<open>Read marks\<close>

lemma map_mark_unchanged:
  "\<forall>a \<in> set xs. get a ''_id'' \<noteq> i \<Longrightarrow>
   map (\<lambda>alarm. if get alarm ''_id'' = i then put ''IsRead'' (JBool True) alarm else alarm) xs = xs"
  by (induction xs) auto

text \<open>
  C10. The single-record read-mark of the cache keeps the length and the order of the
  cached sequence; at every position, a record whose \<open>_id\<close> equals a non-empty
  (truthy) id gets \<open>IsRead = true\<close> and keeps every other field, and a record with
  another \<open>_id\<close> is unchanged; the whole cache is unchanged when the id is
  absent or empty (falsy) or when no record carries it; no other part of the cache
  (flags, fetch times, filter context, notifications) is touched.
\<close>

theorem markAlarmAsRead_frame:
  "length (alarmData (markAlarmAsRead i c)) = length (alarmData c) \<and>
   (\<forall>k < length (alarmData c).
      (truthy i \<and> get (alarmData c ! k) ''_id'' = i \<longrightarrow>
         get (alarmData (markAlarmAsRead i c) ! k) ''IsRead'' = JBool True \<and>
         (\<forall>f. f \<noteq> ''IsRead'' \<longrightarrow>
            get (alarmData (markAlarmAsRead i c) ! k) f = get (alarmData c ! k) f)) \<and>
      (get (alarmData c ! k) ''_id'' \<noteq> i \<longrightarrow>
         alarmData (markAlarmAsRead i c) ! k = alarmData c ! k)) \<and>
   (\<not> truthy i \<or> (\<forall>a \<in> set (alarmData c). get a ''_id'' \<noteq> i) \<longrightarrow> markAlarmAsRead i c = c) \<and>
   markAlarmAsRead i c = c\<lparr>alarmData := alarmData (markAlarmAsRead i c)\<rparr>"
proof (cases "truthy i")
  case False
  then show ?thesis by (simp add: markAlarmAsRead_def)
next
  case True
  have unchanged: "(\<forall>a \<in> set (alarmData c). get a ''_id'' \<noteq> i) \<longrightarrow> markAlarmAsRead i c = c"
    using True by (simp add: markAlarmAsRead_def map_mark_unchanged)
  from True unchanged show ?thesis
    by (simp add: markAlarmAsRead_def get_put)
qed

theorem markAlarmAsRead_frame_witness:
  "(0::nat) < length (alarmData demo_cache) \<and> (1::nat) < length (alarmData demo_cache) \<and>
   truthy (JStr ''a1'') \<and> get (alarmData demo_cache ! 0) ''_id'' = JStr ''a1'' \<and>
   ''AlarmCode'' \<noteq> ''IsRead'' \<and> get (alarmData demo_cache ! 1) ''_id'' \<noteq> JStr ''a1'' \<and>
   JStr ''zz'' \<notin> (\<lambda>a. get a ''_id'') ` set (alarmData demo_cache) \<and>
   get (alarmData (markAlarmAsRead (JStr ''a1'') demo_cache) ! 0) ''IsRead'' = JBool True \<and>
   get (alarmData (markAlarmAsRead (JStr ''a1'') demo_cache) ! 0) ''AlarmCode'' = JStr ''IO_ALR_108'' \<and>
   alarmData (markAlarmAsRead (JStr ''a1'') demo_cache) ! 1 = alarmData demo_cache ! 1 \<and>
   markAlarmAsRead (JStr ''zz'') demo_cache = demo_cache \<and>
   markAlarmAsRead (JStr []) demo_cache = demo_cache"
  using markAlarmAsRead_frame [of "JStr ''a1''" demo_cache]
    markAlarmAsRead_frame [of "JStr ''zz''" demo_cache]
    markAlarmAsRead_frame [of "JStr []" demo_cache]
  by (simp add: demo_cache_def empty_cache_def demo_alarm_def)

subsection \<open>Merging pushed alarms: duplicates\<close>

lemmas eval_simps = handleNewAlarm_def tab_passes_def name_filter_def tab_dup_def tab_id_def
  tab_format_def sort_by_def cmp_desc_def addAlarmToCache_def cache_id_def cache_dup_def
  cache_format_def jor_def synth_id_def show_int_def show_nat.simps digit_char_def Let_def
  env1_def env2_def push_event_def empty_tab_def empty_cache_def sample_dates_def

text \<open>
  What the duplicate tests do achieve. A second delivery of an event to
  \<open>addAlarmToCache\<close> is dropped when the event carries an id in \<open>id\<close>,
  \<open>_id\<close> or \<open>AlarmId\<close>, or a \<open>timestamp\<close>, or no \<open>alarmId\<close>; a second
  delivery to \<open>processAlarm\<close> is dropped when both deliveries resolve the same
  parseable timestamp.
\<close>

lemma cache_format_get:
  "get (cache_format e ev i) ''_id'' = jor i (synth_id ''alarm'' e)"
  "get (cache_format e ev i) ''AlarmId'' = ors [get ev ''id'', get ev ''alarmId'', get ev ''AlarmId''] (JStr [])"
  "get (cache_format e ev i) ''CreatedTimestamp'' =
     ors [get ev ''timestamp'', get ev ''createdTimestamp'', get ev ''CreatedTimestamp''] (JStr (nowIso e))"
  by (simp_all add: cache_format_def)

lemma addAlarmToCache_idem:
  assumes "truthy (cache_id ev) \<or> truthy (get ev ''timestamp'') \<or> \<not> truthy (get ev ''alarmId'')"
  shows "addAlarmToCache e2 (Some ev) (addAlarmToCache e1 (Some ev) c) = addAlarmToCache e1 (Some ev) c"
proof (cases "list_ex (cache_dup ev (cache_id ev)) (alarmData c)")
  case True
  then show ?thesis by (simp add: addAlarmToCache_def)
next
  case False
  have "cache_dup ev (cache_id ev) (cache_format e1 ev (cache_id ev))"
    using assms by (auto simp: cache_dup_def cache_format_get jor_def cache_id_def)
  with False show ?thesis by (simp add: addAlarmToCache_def)
qed

lemma bell_format_get:
  "get (bell_format e ev) ''AlarmCode'' = bell_code ev"
  "get (bell_format e ev) ''DeviceName'' = bell_device ev"
  "get (bell_format e ev) ''CreatedTimestamp'' = bell_timestamp e ev"
  by (simp_all add: bell_format_def)

lemma processAlarm_idem:
  assumes "bell_timestamp e2 ev = bell_timestamp e1 ev"
    and "getTime dp (bell_timestamp e1 ev) = Some t"
  shows "processAlarm dp e2 (Some ev) (processAlarm dp e1 (Some ev) b) = processAlarm dp e1 (Some ev) b"
proof (cases "list_ex (bell_dup dp (bell_code ev) (bell_device ev) (Some t)) (bellRef b)")
  case True
  with assms show ?thesis by (simp add: processAlarm_def)
next
  case False
  have "bell_dup dp (bell_code ev) (bell_device ev) (Some t) (bell_format e1 ev)"
    using assms by (simp add: bell_dup_def bell_format_get)
  with False assms show ?thesis by (simp add: processAlarm_def)
qed

lemma addAlarmToCache_alarmId_twice:
  "map (\<lambda>a. get a ''AlarmId'')
     (alarmData (addAlarmToCache env2 (Some alias_event)
        (addAlarmToCache env1 (Some alias_event) empty_cache))) = [JStr ''A-17'', JStr ''A-17'']"
  by (simp add: eval_simps alias_event_def)

lemma processAlarm_push_event_twice:
  "map (\<lambda>a. get a ''_id'')
     (bellRef (processAlarm sample_dates env2 (Some push_event)
        (processAlarm sample_dates env1 (Some push_event) empty_bell))) =
   [JStr ''alarm-1747389601000-k3x9q'']"
  by (simp add: processAlarm_def bell_dup_def bell_code_def bell_device_def bell_timestamp_def
      bell_format_def empty_bell_def eval_simps)

text \<open>
  The code test of \<open>handleNewAlarm\<close> compares the cached timestamp with the clock,
  not with the event: an alarm in PascalCase that was created an hour before it
  arrives is merged on each delivery as well.
\<close>

lemma handleNewAlarm_stale_event_twice:
  "map (\<lambda>a. get a ''AlarmCode'')
     (alarmsRef (fst (handleNewAlarm sample_dates env2 JUndefined JUndefined (Some stale_event)
        (handleNewAlarm sample_dates env1 JUndefined JUndefined (Some stale_event)
           (empty_tab, empty_cache))))) = [JStr ''IO_ALR_109'', JStr ''IO_ALR_109'']"
  by (simp add: eval_simps stale_event_def)

text \<open>
  C1. Dedup invariant: delivering the same alarm event N times to the merge operation
  leaves exactly one record for it. The code does not keep it: \<open>push_event\<close> is an
  alarm with alarm code, device name and creation timestamp in camelCase and no id
  field. \<open>handleNewAlarm\<close> gives it a fresh synthesized id on each delivery, its
  timestamp test reads only the \<open>timestamp\<close> property and its code test only the
  \<open>AlarmCode\<close> property, so the second delivery (200 ms after the first) is merged
  again: the component list and the service cache both hold two records of the one event.
\<close>

theorem handleNewAlarm_same_event_twice:
  "length (alarmsRef (fst tab_once)) = 1 \<and>
   map (\<lambda>a. get a ''_id'') (alarmsRef (fst tab_twice)) =
     [JStr ''alarm-1747389601200-p7wma'', JStr ''alarm-1747389601000-k3x9q''] \<and>
   map (\<lambda>a. get a ''AlarmCode'') (alarmsRef (fst tab_twice)) =
     [JStr ''IO_ALR_108'', JStr ''IO_ALR_108''] \<and>
   map (\<lambda>a. get a ''DeviceName'') (alarmsRef (fst tab_twice)) =
     [JStr ''esp32_04'', JStr ''esp32_04''] \<and>
   map (\<lambda>a. get a ''CreatedTimestamp'') (alarmsRef (fst tab_twice)) =
     [JStr ''2025-05-16T10:00:00.000Z'', JStr ''2025-05-16T10:00:00.000Z''] \<and>
   length (alarmData (snd tab_twice)) = 2"
  unfolding tab_twice_def tab_once_def by (simp add: eval_simps)

subsection \<open>Merging pushed alarms: order\<close>

text \<open>
  The component's own list is sorted after every merge, whatever it held before, as
  long as the timestamps parse.
\<close>

lemma set_insert_by: "set (insert_by cmp x ys) = insert x (set ys)"
  by (induction ys) auto

lemma insert_by_sorted:
  assumes "\<forall>a \<in> set (x # ys). getTime dp (get a ''CreatedTimestamp'') \<noteq> None"
    and "sorted_wrt (newer_eq dp) ys"
  shows "sorted_wrt (newer_eq dp) (insert_by (cmp_desc dp) x ys)"
  using assms
proof (induction ys)
  case Nil
  then show ?case by simp
next
  case (Cons y ys)
  obtain tx ty where t: "getTime dp (get x ''CreatedTimestamp'') = Some tx"
    "getTime dp (get y ''CreatedTimestamp'') = Some ty"
    using Cons.prems(1) by auto
  show ?case
  proof (cases "cmp_desc dp x y \<le> 0")
    case True
    then have xy: "newer_eq dp x y" using t by (simp add: cmp_desc_def newer_eq_def)
    have "newer_eq dp x z" if "z \<in> set ys" for z
    proof -
      have "newer_eq dp y z" using Cons.prems(2) that by simp
      then show ?thesis using xy t by (auto simp: newer_eq_def split: option.splits)
    qed
    with True xy Cons.prems(2) show ?thesis by simp
  next
    case False
    then have yx: "newer_eq dp y x" using t by (simp add: cmp_desc_def newer_eq_def)
    have "sorted_wrt (newer_eq dp) (insert_by (cmp_desc dp) x ys)"
      using Cons by simp
    with False yx Cons.prems(2) show ?thesis by (auto simp: set_insert_by)
  qed
qed

lemma sort_by_sorted_desc:
  "\<forall>a \<in> set xs. getTime dp (get a ''CreatedTimestamp'') \<noteq> None \<Longrightarrow>
   sorted_desc dp (sort_by (cmp_desc dp) xs)"
proof (induction xs)
  case Nil
  then show ?case by (simp add: sorted_desc_def sort_by_def)
next
  case (Cons x xs)
  have s: "set (sort_by (cmp_desc dp) xs) = set xs" for xs :: "jsobj list"
    by (induction xs) (simp_all add: sort_by_def set_insert_by)
  have "sorted_wrt (newer_eq dp) (insert_by (cmp_desc dp) x (sort_by (cmp_desc dp) xs))"
    using Cons by (intro insert_by_sorted) (simp_all add: s sorted_desc_def)
  then show ?case by (simp add: sorted_desc_def sort_by_def)
qed

lemma handleNewAlarm_sorts:
  assumes "handleNewAlarm dp e sp sd (Some ev) (t, c) = (t', c')"
    and "t' \<noteq> t"
    and "\<forall>a \<in> set (alarmsRef t). getTime dp (get a ''CreatedTimestamp'') \<noteq> None"
    and "getTime dp (get (tab_format e ev (tab_id e ev)) ''CreatedTimestamp'') \<noteq> None"
  shows "sorted_desc dp (alarmsRef t')"
proof -
  have "alarmsRef t' = sort_by (cmp_desc dp) (tab_format e ev (tab_id e ev) # alarmsRef t)"
    using assms(1,2) by (auto simp: handleNewAlarm_def Let_def split: if_splits)
  then show ?thesis using assms(3,4) by (simp add: sort_by_sorted_desc)
qed

text \<open>
  C2. Ordering invariant: after any sequence of bulk loads and merges the cache is
  sorted by \<open>CreatedTimestamp\<close>, newest first. \<open>addAlarmToCache\<close> puts the new
  record in front without sorting: after a bulk load of one alarm of 10:00, merging an
  alarm stamped 09:00 leaves the older record first.
\<close>

theorem addAlarmToCache_breaks_order:
  "sorted_desc sample_dates (alarmData loaded_cache) \<and>
   map (\<lambda>a. get a ''CreatedTimestamp'')
     (alarmData (addAlarmToCache env2 (Some older_alarm) loaded_cache)) =
     [JStr ''2025-05-16T09:00:00.000Z'', JStr ''2025-05-16T10:00:00.000Z''] \<and>
   \<not> sorted_desc sample_dates (alarmData (addAlarmToCache env2 (Some older_alarm) loaded_cache))"
  by (simp add: loaded_cache_def cacheAlarmData_def empty_cache_def addAlarmToCache_def
      cache_id_def cache_dup_def cache_format_def older_alarm_def demo_alarm_def jor_def
      sorted_desc_def newer_eq_def sample_dates_def)

subsection \<open>Normalization\<close>

lemma camel_names:
  "decapitalize ` set pascal_fields = {''alarmId'', ''alarmCode'', ''alarmDescription'',
     ''createdTimestamp'', ''deviceId'', ''deviceName'', ''plantName'', ''isActive'', ''isRead''}"
  by (simp add: pascal_fields_def decapitalize_def lower_char_def)

lemma decapitalize_inj: "inj_on decapitalize (set pascal_fields)"
  by (simp add: pascal_fields_def decapitalize_def lower_char_def)

lemma decapitalize_not_pascal:
  "P \<in> set pascal_fields \<Longrightarrow> decapitalize P \<notin> set pascal_fields"
  by (auto simp: pascal_fields_def decapitalize_def lower_char_def)

lemma get_absent: "k \<notin> fst ` set obj \<Longrightarrow> get obj k = JUndefined"
  by (induction obj) auto

lemma recase_simps:
  "recase sel [] = []"
  "recase sel ((k, v) # obj) =
     (if k \<in> set pascal_fields \<and> sel k then decapitalize k else k, v) # recase sel obj"
  by (simp_all add: recase_def)

lemma get_recase_pascal:
  assumes "P \<in> set pascal_fields"
  shows "get (recase sel obj) P = (if sel P then JUndefined else get obj P)"
proof (induction obj)
  case Nil
  show ?case by (simp add: recase_simps)
next
  case (Cons kv obj)
  obtain k v where kv: "kv = (k, v)" by (cases kv)
  have "decapitalize k \<noteq> P" if "k \<in> set pascal_fields"
    using that assms decapitalize_not_pascal [of k] by auto
  with Cons assms show ?case by (auto simp: kv recase_simps)
qed

lemma get_recase_camel:
  assumes "P \<in> set pascal_fields"
    and "\<forall>k \<in> fst ` set obj. k \<notin> decapitalize ` set pascal_fields"
  shows "get (recase sel obj) (decapitalize P) = (if sel P then get obj P else JUndefined)"
  using assms(2)
proof (induction obj)
  case Nil
  show ?case by (simp add: recase_simps)
next
  case (Cons kv obj)
  obtain k v where kv: "kv = (k, v)" by (cases kv)
  from Cons have ih: "get (recase sel obj) (decapitalize P) = (if sel P then get obj P else JUndefined)"
    by simp
  from Cons.prems have nk: "k \<noteq> decapitalize P" using assms(1) by (auto simp: kv)
  have inj: "decapitalize k = decapitalize P \<longleftrightarrow> k = P" if "k \<in> set pascal_fields"
    using that assms(1) decapitalize_inj by (auto simp: inj_on_def)
  show ?case
  proof (cases "k \<in> set pascal_fields \<and> sel k")
    case True
    with ih inj show ?thesis by (auto simp: kv recase_simps)
  next
    case False
    have "sel P \<Longrightarrow> k \<noteq> P" using False assms(1) by auto
    with False nk ih show ?thesis by (auto simp: kv recase_simps)
  qed
qed

lemma get_recase_other:
  assumes "q \<notin> set pascal_fields" and "q \<notin> decapitalize ` set pascal_fields"
  shows "get (recase sel obj) q = get obj q"
proof (induction obj)
  case Nil
  show ?case by (simp add: recase_simps)
next
  case (Cons kv obj)
  obtain k v where kv: "kv = (k, v)" by (cases kv)
  from assms Cons show ?case by (auto simp: kv recase_simps)
qed

text \<open>
  \<open>normalizeAlarmObject\<close> does not depend on the casing of the field names: on a
  record whose fields are in PascalCase (none of the camelCase names is among its
  keys), renaming any choice of them to camelCase leaves the result as it was,
  whatever the device of the request.
\<close>

lemma normalizeAlarmObject_recase:
  assumes "\<forall>k \<in> fst ` set obj. k \<notin> decapitalize ` set pascal_fields"
  shows "normalizeAlarmObject e (recase sel obj) ctx = normalizeAlarmObject e obj ctx"
proof -
  have p: "get (recase sel obj) P = (if sel P then JUndefined else get obj P)"
    if "P \<in> set pascal_fields" for P
    using that by (rule get_recase_pascal)
  have c: "get (recase sel obj) (decapitalize P) = (if sel P then get obj P else JUndefined)"
    if "P \<in> set pascal_fields" for P
    using that assms by (rule get_recase_camel)
  have a: "get obj (decapitalize P) = JUndefined" if "P \<in> set pascal_fields" for P
    using that assms by (intro get_absent) force
  have d: "decapitalize ''AlarmId'' = ''alarmId''" "decapitalize ''AlarmCode'' = ''alarmCode''"
    "decapitalize ''AlarmDescription'' = ''alarmDescription''"
    "decapitalize ''CreatedTimestamp'' = ''createdTimestamp''"
    "decapitalize ''DeviceId'' = ''deviceId''" "decapitalize ''DeviceName'' = ''deviceName''"
    "decapitalize ''PlantName'' = ''plantName''" "decapitalize ''IsActive'' = ''isActive''"
    "decapitalize ''IsRead'' = ''isRead''"
    by (simp_all add: decapitalize_def lower_char_def)
  have m: "''AlarmId'' \<in> set pascal_fields" "''AlarmCode'' \<in> set pascal_fields"
    "''AlarmDescription'' \<in> set pascal_fields" "''CreatedTimestamp'' \<in> set pascal_fields"
    "''DeviceId'' \<in> set pascal_fields" "''DeviceName'' \<in> set pascal_fields"
    "''PlantName'' \<in> set pascal_fields" "''IsActive'' \<in> set pascal_fields"
    "''IsRead'' \<in> set pascal_fields"
    by (simp_all add: pascal_fields_def)
  have np: "''_id'' \<notin> set pascal_fields" "''description'' \<notin> set pascal_fields"
    "''timestamp'' \<notin> set pascal_fields"
    by (simp_all add: pascal_fields_def)
  have nc: "''_id'' \<notin> decapitalize ` set pascal_fields"
    "''description'' \<notin> decapitalize ` set pascal_fields"
    "''timestamp'' \<notin> decapitalize ` set pascal_fields"
    by (simp_all add: camel_names)
  have o: "get (recase sel obj) ''_id'' = get obj ''_id''"
    "get (recase sel obj) ''description'' = get obj ''description''"
    "get (recase sel obj) ''timestamp'' = get obj ''timestamp''"
    using np nc by (simp_all add: get_recase_other)
  note pm = m [THEN p] and cm = m [THEN c, unfolded d] and am = m [THEN a, unfolded d]
  show ?thesis
    unfolding normalizeAlarmObject_def by (simp add: pm cm am o defined_or_def)
qed

lemma normalizeAlarmObject_sample:
  "normalizeAlarmObject e pascal_alarm ctx = normalizeAlarmObject e camel_alarm ctx"
  by (simp add: normalizeAlarmObject_def pascal_alarm_def camel_alarm_def jor_def defined_or_def)

text \<open>
  C8. Normalization is invariant under field-name casing: two raw alarm records that
  differ only in the casing of their field names normalize to the same record. The
  code does not keep it: \<open>pascal_alarm\<close> and \<open>camel_alarm\<close> carry the same
  values under \<open>AlarmCode, DeviceId, CreatedTimestamp\<close> and under
  \<open>alarmCode, deviceId, createdTimestamp\<close>. \<open>transformAlarmDocument\<close> falls back
  from the alarm id to \<open>doc.AlarmCode\<close> only, so the first gets the alarm id
  \<open>IO_ALR_108\<close> and the second the empty one, at any time of the call.
  (\<open>normalizeAlarmObject\<close> of the controller treats both casings alike, as the
  lemmas above have it.)
\<close>

theorem transformAlarmDocument_alias_variants:
  "map_option (\<lambda>d. get d ''AlarmId'') (transformAlarmDocument e (Some pascal_alarm)) =
     Some (JStr ''IO_ALR_108'') \<and>
   map_option (\<lambda>d. get d ''AlarmId'') (transformAlarmDocument e (Some camel_alarm)) =
     Some (JStr []) \<and>
   map_option (\<lambda>d. get d ''AlarmCode'') (transformAlarmDocument e (Some pascal_alarm)) =
     map_option (\<lambda>d. get d ''AlarmCode'') (transformAlarmDocument e (Some camel_alarm)) \<and>
   transformAlarmDocument e (Some pascal_alarm) \<noteq> transformAlarmDocument e (Some camel_alarm)"
  by (simp add: transformAlarmDocument_def pascal_alarm_def camel_alarm_def defined_or_def)

subsection \<open>Failures of the alarm API\<close>

lemma retry_loop_unavailable:
  "\<forall>k. isl (apiCall k) \<Longrightarrow> isl (retry_loop apiCall attempt left)"
proof (induction left arbitrary: attempt)
  case 0
  then have "isl (apiCall attempt)" by blast
  then obtain err where "apiCall attempt = Inl err" by (cases "apiCall attempt") auto
  then show ?case by simp
next
  case (Suc left)
  then have "isl (apiCall attempt)" by blast
  then obtain err where "apiCall attempt = Inl err" by (cases "apiCall attempt") auto
  then show ?case using Suc by simp
qed

text \<open>
  C9, the claim as stated: an unavailable service reaches the caller of a bulk load as
  a failure. With the service down (every attempt is refused) \<open>getAllAlarms\<close> and
  \<open>getAlarmsByDevice\<close> do not fail: they return the empty array, the very value
  they return when the service answers that there are no alarms.
\<close>

theorem unavailable_counterexample:
  "getAllAlarms service_down = Inr [] \<and> getAllAlarms no_alarms = Inr [] \<and>
   getAlarmsByDevice (JStr ''esp32_04'') service_down = Inr []"
  by (simp add: getAllAlarms_def getAlarmsByDevice_def apiCallWithRetry_def service_down_def no_alarms_def
      numeral_2_eq_2 isServerError_def isNetworkError_def)

text \<open>
  C9, as the code has it. When every attempt of the request fails, no operation
  passes the failure on: the bulk loads \<open>getAllAlarms\<close> and
  \<open>getAlarmsByDevice\<close> return the empty array and the read marks
  \<open>markAlarmAsRead\<close> and \<open>markAllAlarmsAsRead\<close> return \<open>false\<close>; none of
  them raises an exception to its caller.
\<close>

theorem unavailable_is_swallowed:
  assumes "\<forall>k. isl (apiCall k)"
  shows "getAllAlarms apiCall = Inr [] \<and> getAlarmsByDevice deviceId apiCall = Inr [] \<and>
         api_markAlarmAsRead alarmId apiCall = Inr False \<and> markAllAlarmsAsRead apiCall = Inr False"
proof -
  have "isl (apiCallWithRetry apiCall 2)"
    using assms by (simp add: apiCallWithRetry_def retry_loop_unavailable)
  then show ?thesis
    by (auto simp: getAllAlarms_def getAlarmsByDevice_def api_markAlarmAsRead_def
        markAllAlarmsAsRead_def split: sum.splits)
qed

theorem unavailable_is_swallowed_witness:
  "isl (service_down 0) \<and> getAllAlarms service_down = Inr [] \<and>
   getAlarmsByDevice (JStr ''esp32_04'') service_down = Inr [] \<and>
   api_markAlarmAsRead (JStr ''a1'') service_down = Inr False \<and>
   markAllAlarmsAsRead service_down = Inr False"
  using unavailable_is_swallowed [of service_down "JStr ''esp32_04''" "JStr ''a1''"]
  by (simp add: service_down_def)

subsection \<open>Fan-out targets\<close>

lemmas route_simps = telemetry_handler_def isEsp32_04_def tel_deviceId_def tel_deviceName_def
  tel_plant_emit_def tel_plantName_def alarms_handler_def alarm_deviceId_def alarm_plantId_def
  notification_payload_def notif_plantName_def jor_def toLowerCase_def lower_char_def
  show_int_def show_nat.simps digit_char_def channel_def targets_def

text \<open>
  C3, the claim as stated: every event's target set includes a global broadcast. A
  telemetry sample of a device other than esp32_04 is emitted to its device room and
  its plant room only.
\<close>

theorem telemetry_no_global:
  "map channel (telemetry_handler [''s1'', ''s2''] (Some telemetry_esp32_01)) =
     [(Room ''device:esp32_01'', ''telemetry''), (Room ''plant:1'', ''telemetry'')] \<and>
   Global \<notin> targets (telemetry_handler [''s1'', ''s2''] (Some telemetry_esp32_01))"
  by (simp add: route_simps telemetry_esp32_01_def)

lemma show_int_plant: "show_int 1 = ''1''" "show_int 2 = ''2''"
  by (simp_all add: show_int_def show_nat.simps digit_char_def)

lemma tel_plant_emit_targets: "Global \<notin> fst ` set (tel_plant_emit td)"
  by (cases "tel_plantName td") (simp_all add: tel_plant_emit_def)

text \<open>
  Without an explicit \<open>plantId\<close> the alarm handler picks the plant room from
  \<open>alarmData.plantName\<close> alone: it reads neither \<open>PlantName\<close> nor the device,
  which the notification it builds a few lines later and the telemetry handler both
  do. An alarm of esp32_04 that names its plant \<open>PlantName: 'Plant D'\<close> goes to the
  room \<open>plant:1\<close>, while its own notification says Plant D and the telemetry of
  the same device goes to \<open>plant:2\<close>.
\<close>

lemma alarm_plant_room_ignores_PlantName:
  "(Room ''plant:1'', ''alarm'', Plain alarm_plant_d) \<in> set (alarms_handler env1 (Some alarm_plant_d)) \<and>
   Room ''plant:2'' \<notin> targets (alarms_handler env1 (Some alarm_plant_d)) \<and>
   map_option (\<lambda>n. get n ''plantName'') (notification_payload env1 alarm_plant_d) =
     Some (JStr ''Plant D'')"
  by (simp add: route_simps alarm_plant_d_def)

text \<open>
  C3, as the code has it. An alarm always goes to the global broadcast, to the device
  room \<open>device:<deviceId>\<close> when a device id resolved, and to the plant room
  \<open>plant:<plantId>\<close> when it carries an explicit plant id.
  Telemetry goes to the global broadcast only when it is identified as esp32_04 (and
  then to the room \<open>device:esp32_04\<close>); telemetry of another device goes to its
  device room and to no global broadcast. In both cases it goes to the plant room
  (2 for Plant D, else 1) whenever a plant name resolves.
\<close>

theorem fanout_targets:
  "(Global, ''alarm'', Plain ad) \<in> set (alarms_handler e (Some ad)) \<and>
   (truthy (alarm_deviceId ad) \<longrightarrow>
      (Room (''device:'' @ to_string (alarm_deviceId ad)), ''alarm'', Plain ad)
        \<in> set (alarms_handler e (Some ad))) \<and>
   (truthy (get ad ''plantId'') \<longrightarrow>
      (Room (''plant:'' @ to_string (get ad ''plantId'')), ''alarm'', Plain ad)
        \<in> set (alarms_handler e (Some ad))) \<and>
   (isEsp32_04 td = Some True \<longrightarrow>
      (Global, ''telemetry'', Plain td) \<in> set (telemetry_handler sockets (Some td)) \<and>
      (Room ''device:esp32_04'', ''telemetry-esp32_04'', Plain td)
        \<in> set (telemetry_handler sockets (Some td))) \<and>
   (isEsp32_04 td = Some False \<longrightarrow>
      Global \<notin> targets (telemetry_handler sockets (Some td)) \<and>
      (Room (''device:'' @ to_string (tel_deviceId td)), ''telemetry'', Plain td)
        \<in> set (telemetry_handler sockets (Some td))) \<and>
   (isEsp32_04 td \<noteq> None \<longrightarrow>
      (\<forall>plantName. tel_plantName td = Some plantName \<longrightarrow>
         (Room (''plant:'' @ (if plantName = JStr ''Plant D'' then ''2'' else ''1'')), ''telemetry'', Plain td)
           \<in> set (telemetry_handler sockets (Some td))))"
proof -
  have alarm: "(Global, ''alarm'', Plain ad) \<in> set (alarms_handler e (Some ad)) \<and>
     (truthy (alarm_deviceId ad) \<longrightarrow>
        (Room (''device:'' @ to_string (alarm_deviceId ad)), ''alarm'', Plain ad)
          \<in> set (alarms_handler e (Some ad))) \<and>
     (truthy (get ad ''plantId'') \<longrightarrow>
        (Room (''plant:'' @ to_string (get ad ''plantId'')), ''alarm'', Plain ad)
          \<in> set (alarms_handler e (Some ad)))"
    by (simp add: alarms_handler_def alarm_plantId_def jor_def)
  have esp: "isEsp32_04 td = Some True \<longrightarrow>
      (Global, ''telemetry'', Plain td) \<in> set (telemetry_handler sockets (Some td)) \<and>
      (Room ''device:esp32_04'', ''telemetry-esp32_04'', Plain td)
        \<in> set (telemetry_handler sockets (Some td))"
    by (simp add: telemetry_handler_def)
  have other: "isEsp32_04 td = Some False \<longrightarrow>
      Global \<notin> targets (telemetry_handler sockets (Some td)) \<and>
      (Room (''device:'' @ to_string (tel_deviceId td)), ''telemetry'', Plain td)
        \<in> set (telemetry_handler sockets (Some td))"
    using tel_plant_emit_targets [of td] by (simp add: telemetry_handler_def targets_def)
  have plant: "isEsp32_04 td \<noteq> None \<longrightarrow>
      (\<forall>plantName. tel_plantName td = Some plantName \<longrightarrow>
         (Room (''plant:'' @ (if plantName = JStr ''Plant D'' then ''2'' else ''1'')), ''telemetry'', Plain td)
           \<in> set (telemetry_handler sockets (Some td)))"
  proof (intro impI allI)
    fix plantName
    assume a: "isEsp32_04 td \<noteq> None" "tel_plantName td = Some plantName"
    then obtain b where b: "isEsp32_04 td = Some b" by auto
    have pe: "tel_plant_emit td =
      [(Room (''plant:'' @ (if plantName = JStr ''Plant D'' then ''2'' else ''1'')), ''telemetry'', Plain td)]"
      using a(2) by (cases "plantName = JStr ''Plant D''") (simp_all add: tel_plant_emit_def show_int_plant)
    show "(Room (''plant:'' @ (if plantName = JStr ''Plant D'' then ''2'' else ''1'')), ''telemetry'', Plain td)
           \<in> set (telemetry_handler sockets (Some td))"
      by (cases b) (simp_all add: telemetry_handler_def b pe)
  qed
  from alarm esp other plant show ?thesis by blast
qed

theorem fanout_targets_witness:
  "truthy (alarm_deviceId alarm_plant_2) \<and>
   truthy (get alarm_plant_2 ''plantId'') \<and>
   isEsp32_04 telemetry_esp32_04 = Some True \<and>
   tel_plantName telemetry_esp32_04 = Some (JStr ''Plant D'') \<and>
   isEsp32_04 telemetry_esp32_01 = Some False \<and>
   (Global, ''alarm'', Plain alarm_plant_2) \<in> set (alarms_handler env1 (Some alarm_plant_2)) \<and>
   (Room ''device:esp32_04'', ''alarm'', Plain alarm_plant_2)
      \<in> set (alarms_handler env1 (Some alarm_plant_2)) \<and>
   (Room ''plant:2'', ''alarm'', Plain alarm_plant_2)
      \<in> set (alarms_handler env1 (Some alarm_plant_2)) \<and>
   (Global, ''telemetry'', Plain telemetry_esp32_04)
      \<in> set (telemetry_handler [''s1''] (Some telemetry_esp32_04)) \<and>
   (Room ''device:esp32_04'', ''telemetry-esp32_04'', Plain telemetry_esp32_04)
      \<in> set (telemetry_handler [''s1''] (Some telemetry_esp32_04)) \<and>
   (Room ''plant:2'', ''telemetry'', Plain telemetry_esp32_04)
      \<in> set (telemetry_handler [''s1''] (Some telemetry_esp32_04)) \<and>
   Global \<notin> targets (telemetry_handler [''s1''] (Some telemetry_esp32_01)) \<and>
   (Room ''device:esp32_01'', ''telemetry'', Plain telemetry_esp32_01)
      \<in> set (telemetry_handler [''s1''] (Some telemetry_esp32_01))"
proof -
  have h: "truthy (alarm_deviceId alarm_plant_2)" "truthy (get alarm_plant_2 ''plantId'')"
    "isEsp32_04 telemetry_esp32_04 = Some True"
    "tel_plantName telemetry_esp32_04 = Some (JStr ''Plant D'')"
    "to_string (alarm_deviceId alarm_plant_2) = ''esp32_04''"
    "to_string (get alarm_plant_2 ''plantId'') = ''2''"
    "isEsp32_04 telemetry_esp32_01 = Some False"
    "to_string (tel_deviceId telemetry_esp32_01) = ''esp32_01''"
    by (simp_all add: route_simps alarm_plant_2_def telemetry_esp32_04_def telemetry_esp32_01_def)
  show ?thesis
    using fanout_targets [of alarm_plant_2 env1 telemetry_esp32_04 "[''s1'']"]
      fanout_targets [of alarm_plant_2 env1 telemetry_esp32_01 "[''s1'']"] h
    by simp
qed

subsection \<open>One push per room and channel\<close>

lemma tel_plant_emit_channel:
  "map channel (tel_plant_emit td) = [] \<or>
   map channel (tel_plant_emit td) = [(Room ''plant:1'', ''telemetry'')] \<or>
   map channel (tel_plant_emit td) = [(Room ''plant:2'', ''telemetry'')]"
  by (cases "tel_plantName td") (simp_all add: tel_plant_emit_def channel_def show_int_plant)

lemma tel_plant_emit_target:
  "map fst (tel_plant_emit td) = [] \<or>
   map fst (tel_plant_emit td) = [Room ''plant:1''] \<or>
   map fst (tel_plant_emit td) = [Room ''plant:2'']"
  by (cases "tel_plantName td") (simp_all add: tel_plant_emit_def show_int_plant)

text \<open>
  C4, the claim as stated: no room, the global one included, receives the same event
  twice in one routing pass. The branch for esp32_04 broadcasts on purpose "via
  multiple channels": one sample goes to every client three times (as
  \<open>telemetry\<close>, as \<open>telemetry_esp32_04\<close> and wrapped as \<open>broadcast\<close>), and as
  \<open>telemetry-esp32_04\<close> both to the room \<open>device:esp32_04\<close> and to each connected
  socket on its own.
\<close>

theorem esp32_04_sample_broadcast_thrice:
  "map fst (telemetry_handler [''s1'', ''s2''] (Some telemetry_esp32_04)) =
     [Global, Global, Room ''device:esp32_04'', Global, ToSocket ''s1'', ToSocket ''s2'',
      Room ''plant:2''] \<and>
   filter (\<lambda>em. fst em = Global) (telemetry_handler [''s1'', ''s2''] (Some telemetry_esp32_04)) =
     [(Global, ''telemetry'', Plain telemetry_esp32_04),
      (Global, ''telemetry_esp32_04'', Plain telemetry_esp32_04),
      (Global, ''broadcast'', Wrapped ''esp32_04_data'' telemetry_esp32_04)] \<and>
   \<not> distinct (map fst (telemetry_handler [''s1'', ''s2''] (Some telemetry_esp32_04)))"
  by (simp add: route_simps telemetry_esp32_04_def)

text \<open>
  C4, as the code has it. One routing pass never emits twice with the same target
  (the global broadcast, a room, one socket) and the same event name
  (\<open>telemetry\<close>, the alias \<open>telemetry_esp32_04\<close>, \<open>alarm\<close>, ...): the list of
  emissions of one handler run, the delayed alarm notification included, has no two
  entries with the same target and event name. A target may get the same published
  event again under another event name (the three global broadcasts of esp32_04, the
  \<open>alarm\<close> and the later \<open>alarm_notification\<close>). Telemetry of a device other
  than esp32_04 is pushed at most once to each target.
\<close>

theorem one_push_per_channel:
  assumes "distinct sockets"
  shows "distinct (map channel (telemetry_handler sockets msg)) \<and>
         distinct (map channel (alarms_handler e msg)) \<and>
         (isEsp32_04 td = Some False \<longrightarrow>
            distinct (map fst (telemetry_handler sockets (Some td))))"
proof (intro conjI impI)
  show "distinct (map channel (telemetry_handler sockets msg))"
  proof (cases msg)
    case None
    then show ?thesis by (simp add: telemetry_handler_def)
  next
    case (Some td)
    have inj: "distinct (map (\<lambda>socket. (ToSocket socket, ''telemetry-esp32_04'')) sockets)"
      using assms by (simp add: distinct_map inj_on_def)
    have m: "map channel (map (\<lambda>socket. (ToSocket socket, ''telemetry-esp32_04'', Plain td)) sockets)
           = map (\<lambda>socket. (ToSocket socket, ''telemetry-esp32_04'')) sockets"
      by (simp add: channel_def)
    show ?thesis
    proof (cases "isEsp32_04 td")
      case None
      then show ?thesis using Some by (simp add: telemetry_handler_def)
    next
      case (Some b)
      have rooms: "(ToSocket socket, ev) \<notin> set (map channel (tel_plant_emit td))"
        "(Global, ev) \<notin> set (map channel (tel_plant_emit td))"
        "(Room (''device:'' @ r), ev) \<notin> set (map channel (tel_plant_emit td))"
        "distinct (map channel (tel_plant_emit td))"
        for socket ev r
        using tel_plant_emit_channel [of td] by auto
      show ?thesis
      proof (cases b)
        case True
        have "map channel (telemetry_handler sockets msg) =
          [(Global, ''telemetry''), (Global, ''telemetry_esp32_04''),
           (Room ''device:esp32_04'', ''telemetry-esp32_04''), (Global, ''broadcast'')] @
          map (\<lambda>socket. (ToSocket socket, ''telemetry-esp32_04'')) sockets @
          map channel (tel_plant_emit td)"
          using True \<open>isEsp32_04 td = Some b\<close> \<open>msg = Some td\<close>
          by (simp add: telemetry_handler_def channel_def comp_def)
        moreover have "set (map (\<lambda>socket. (ToSocket socket, ''telemetry-esp32_04'')) sockets)
            \<inter> set (map channel (tel_plant_emit td)) = {}"
          using rooms(1) by auto
        ultimately show ?thesis
          using inj rooms(2,4) rooms(3) [of "''esp32_04''"] by auto
      next
        case False
        have "map channel (telemetry_handler sockets msg) =
          (Room (''device:'' @ to_string (tel_deviceId td)), ''telemetry'') #
          map channel (tel_plant_emit td)"
          using False \<open>isEsp32_04 td = Some b\<close> \<open>msg = Some td\<close>
          by (simp add: telemetry_handler_def channel_def)
        then show ?thesis using rooms(3,4) by simp
      qed
    qed
  qed
next
  show "distinct (map channel (alarms_handler e msg))"
  proof (cases msg)
    case None
    then show ?thesis by (simp add: alarms_handler_def)
  next
    case (Some ad)
    then show ?thesis
      by (cases "notification_payload e ad"; cases "truthy (alarm_deviceId ad)")
        (simp_all add: alarms_handler_def channel_def)
  qed
next
  assume f: "isEsp32_04 td = Some False"
  have "map fst (telemetry_handler sockets (Some td)) =
      Room (''device:'' @ to_string (tel_deviceId td)) # map fst (tel_plant_emit td)"
    using f by (simp add: telemetry_handler_def)
  then show "distinct (map fst (telemetry_handler sockets (Some td)))"
    using tel_plant_emit_target [of td] by auto
qed

theorem one_push_per_channel_witness:
  "distinct [''s1'', ''s2''] \<and>
   map channel (telemetry_handler [''s1'', ''s2''] (Some telemetry_esp32_04)) =
     [(Global, ''telemetry''), (Global, ''telemetry_esp32_04''),
      (Room ''device:esp32_04'', ''telemetry-esp32_04''), (Global, ''broadcast''),
      (ToSocket ''s1'', ''telemetry-esp32_04''), (ToSocket ''s2'', ''telemetry-esp32_04''),
      (Room ''plant:2'', ''telemetry'')] \<and>
   distinct (map channel (telemetry_handler [''s1'', ''s2''] (Some telemetry_esp32_04))) \<and>
   distinct (map channel (alarms_handler env1 (Some alarm_108))) \<and>
   isEsp32_04 telemetry_esp32_01 = Some False \<and>
   distinct (map fst (telemetry_handler [''s1'', ''s2''] (Some telemetry_esp32_01)))"
proof -
  have d: "distinct [''s1'', ''s2'']" by simp
  have f: "isEsp32_04 telemetry_esp32_01 = Some False"
    by (simp add: route_simps telemetry_esp32_01_def)
  have m: "map channel (telemetry_handler [''s1'', ''s2''] (Some telemetry_esp32_04)) =
     [(Global, ''telemetry''), (Global, ''telemetry_esp32_04''),
      (Room ''device:esp32_04'', ''telemetry-esp32_04''), (Global, ''broadcast''),
      (ToSocket ''s1'', ''telemetry-esp32_04''), (ToSocket ''s2'', ''telemetry-esp32_04''),
      (Room ''plant:2'', ''telemetry'')]"
    by (simp add: route_simps telemetry_esp32_04_def)
  show ?thesis
    using one_push_per_channel [OF d, of "Some telemetry_esp32_04" env1 telemetry_esp32_01]
      one_push_per_channel [OF d, of "Some alarm_108" env1 telemetry_esp32_01] d m f
    by simp
qed

subsection \<open>Listener registration\<close>

lemma disconnect_handler_pow:
  "socket ((disconnect_handler ^^ n) s) = socket s \<and>
   outbox ((disconnect_handler ^^ n) s) = outbox s \<and>
   listeners ((disconnect_handler ^^ n) s) = listeners s \<and>
   activeListeners ((disconnect_handler ^^ n) s) = activeListeners s \<and>
   pendingSubscriptions ((disconnect_handler ^^ n) s) = pendingSubscriptions s \<and>
   cache ((disconnect_handler ^^ n) s) = cache s"
  by (induction n) (simp_all add: disconnect_handler_def)

lemma connect_fields [simp]:
  "socket (connect s) = Some new_socket"
  "outbox (connect s) = outbox s"
  "listeners (connect s) = listeners s"
  "activeListeners (connect s) = activeListeners s"
  "pendingSubscriptions (connect s) = pendingSubscriptions s"
  "cache (connect s) = cache s"
  by (simp_all add: connect_def socket_disconnect_def disconnect_handler_pow split: option.splits)

lemma sock_off_fields [simp]:
  "outbox (sock_off ev s) = outbox s"
  "listeners (sock_off ev s) = listeners s"
  "activeListeners (sock_off ev s) = activeListeners s"
  "pendingSubscriptions (sock_off ev s) = pendingSubscriptions s"
  "cache (sock_off ev s) = cache s"
  "connected (sock_off ev s) = connected s"
  "calls (sock_off ev s) = calls s"
  "(socket (sock_off ev s) = None) = (socket s = None)"
  by (simp_all add: sock_off_def split: option.splits)

lemma sock_on_fields [simp]:
  "outbox (sock_on ev h s) = outbox s"
  "listeners (sock_on ev h s) = listeners s"
  "activeListeners (sock_on ev h s) = activeListeners s"
  "pendingSubscriptions (sock_on ev h s) = pendingSubscriptions s"
  "cache (sock_on ev h s) = cache s"
  "connected (sock_on ev h s) = connected s"
  "calls (sock_on ev h s) = calls s"
  "(socket (sock_on ev h s) = None) = (socket s = None)"
  by (simp_all add: sock_on_def split: option.splits)

text \<open>The handlers a socket holds for one event name.\<close>

lemma handlers_off_on:
  assumes "socket s = Some k"
  shows "\<exists>k'. socket (sock_on ev h (sock_off ev s)) = Some k' \<and>
           filter (\<lambda>r. fst r = ev) (handlers k') = [(ev, h)]"
  using assms by (simp add: sock_on_def sock_off_def)

lemma handlers_on_fresh:
  assumes "socket s = Some k" and "\<not> hasListeners ev k"
  shows "\<exists>k'. socket (sock_on ev h s) = Some k' \<and>
           filter (\<lambda>r. fst r = ev) (handlers k') = [(ev, h)]"
proof -
  have "filter (\<lambda>r. fst r = ev) (handlers k) = []"
    using assms(2) by (auto simp: hasListeners_def list_ex_iff filter_empty_conv)
  then show ?thesis using assms(1) by (simp add: sock_on_def)
qed

lemma listen_installed:
  assumes "socket s \<noteq> None"
  shows "\<exists>k'. socket (fst (listen ev h e callback s)) = Some k' \<and>
           filter (\<lambda>r. fst r = ev) (handlers k') = [(ev, h)] \<and>
           listeners (fst (listen ev h e callback s)) ev = Some [callback] \<and>
           snd (listen ev h e callback s) = Some (DListener ev callback)"
proof -
  from assms obtain k where k: "socket s = Some k" by auto
  show ?thesis
  proof (cases "hasListeners ev k")
    case True
    from handlers_off_on [OF k, of ev h] obtain k' where
      "socket (sock_on ev h (sock_off ev s)) = Some k'"
      "filter (\<lambda>r. fst r = ev) (handlers k') = [(ev, h)]" by blast
    then show ?thesis using k True
      by (simp add: listen_def Let_def emit_def sock_on_def sock_off_def)
  next
    case False
    from handlers_on_fresh [OF k False, of h] obtain k' where
      "socket (sock_on ev h s) = Some k'"
      "filter (\<lambda>r. fst r = ev) (handlers k') = [(ev, h)]" by blast
    then show ?thesis using k False
      by (simp add: listen_def Let_def emit_def sock_on_def)
  qed
qed

lemma registered_Suc: "registered (Suc n) reg s = fst (reg (registered n reg s))"
  by (simp add: registered_def)

lemma listen_socket: "socket (fst (listen ev h e callback s)) \<noteq> None"
  by (auto simp: listen_def Let_def emit_def sock_on_def sock_off_def split: option.splits)

lemma registered_listen_socket:
  "socket s \<noteq> None \<Longrightarrow> socket (registered n (listen ev h e callback) s) \<noteq> None"
  by (induction n) (simp_all add: registered_def listen_socket)

lemma deliver_single:
  assumes "socket s = Some k" and "filter (\<lambda>r. fst r = ev) (handlers k) = [(ev, h)]"
  shows "deliver e ev data s = run_handler e data h s"
  using assms by (simp add: deliver_def)

lemma listen_once_delivery:
  assumes "socket s \<noteq> None" and "0 < n"
    and "(ev, h) = (''alarm'', HAlarm) \<or> (ev, h) = (''alarm_notification'', HAlarmNotification)"
  shows "calls (deliver e' ev data (registered n (listen ev h e callback) s)) =
         calls (registered n (listen ev h e callback) s) @ [callback]"
proof -
  from assms(2) obtain m where n: "n = Suc m" by (cases n) auto
  let ?s = "registered m (listen ev h e callback) s"
  have "socket ?s \<noteq> None" using assms(1) by (rule registered_listen_socket)
  from listen_installed [OF this, of ev h e callback] obtain k' where
    k': "socket (fst (listen ev h e callback ?s)) = Some k'"
    "filter (\<lambda>r. fst r = ev) (handlers k') = [(ev, h)]"
    "listeners (fst (listen ev h e callback ?s)) ev = Some [callback]" by blast
  have "deliver e' ev data (fst (listen ev h e callback ?s)) =
        run_handler e' data h (fst (listen ev h e callback ?s))"
    using k'(1,2) by (rule deliver_single)
  then show ?thesis using assms(3) k'(3)
    by (auto simp: n registered_Suc run_handler_def alarm_handler_def callbacks_of_def)
qed


lemma removeAllTelemetryListeners_fields [simp]:
  "outbox (removeAllTelemetryListeners s) = outbox s"
  "listeners (removeAllTelemetryListeners s) = listeners s"
  "pendingSubscriptions (removeAllTelemetryListeners s) = pendingSubscriptions s"
  "cache (removeAllTelemetryListeners s) = cache s"
  "calls (removeAllTelemetryListeners s) = calls s"
  by (simp_all add: removeAllTelemetryListeners_def Let_def split: option.splits)

lemma removeAllTelemetryListeners_socket:
  assumes "socket s = Some k"
  shows "\<exists>k'. socket (removeAllTelemetryListeners s) = Some k' \<and>
           filter (\<lambda>r. fst r = ''telemetry'') (handlers k') = []"
  using assms
  by (simp add: removeAllTelemetryListeners_def Let_def sock_off_def filter_empty_conv)

lemma onTelemetry_installed:
  assumes "socket s \<noteq> None"
  shows "\<exists>k'. socket (fst (onTelemetry callback device s)) = Some k' \<and>
           filter (\<lambda>r. fst r = ''telemetry'') (handlers k') = [(''telemetry'', HTelemetry callback device)] \<and>
           snd (onTelemetry callback device s) = Some (DTelemetry callback (listenerKey device))"
proof -
  from assms obtain k where k: "socket s = Some k" by auto
  define s2 where "s2 = (let s1 = (if \<not> isConnected s then connect s else s)
     in if listeners s1 ''telemetry'' = None
        then s1\<lparr>listeners := (listeners s1)(''telemetry'' \<mapsto> [])\<rparr> else s1)"
  have "socket s2 \<noteq> None" using k by (simp add: s2_def Let_def)
  then obtain k2 where "socket s2 = Some k2" by auto
  from removeAllTelemetryListeners_socket [OF this] obtain k3 where
    k3: "socket (removeAllTelemetryListeners s2) = Some k3"
    "filter (\<lambda>r. fst r = ''telemetry'') (handlers k3) = []" by blast
  have "fst (onTelemetry callback device s) =
    (let s5 = sock_on ''telemetry'' (HTelemetry callback device)
       ((removeAllTelemetryListeners s2)\<lparr>activeListeners :=
          (activeListeners (removeAllTelemetryListeners s2))(listenerKey device \<mapsto> ACallback callback)\<rparr>)
     in s5\<lparr>listeners := (listeners s5)(''telemetry'' \<mapsto> callbacks_of s5 ''telemetry'' @ [callback])\<rparr>)"
    using k by (simp add: onTelemetry_def s2_def Let_def)
  then show ?thesis using k k3 by (simp add: Let_def sock_on_def onTelemetry_def)
qed

lemma onTelemetry_socket: "socket (fst (onTelemetry callback device s)) \<noteq> None"
proof (cases "socket s")
  case None
  then show ?thesis by (simp add: onTelemetry_def)
next
  case (Some k)
  then have "socket s \<noteq> None" by simp
  from onTelemetry_installed [OF this, of callback device] show ?thesis by auto
qed

lemma registered_onTelemetry_socket:
  "socket s \<noteq> None \<Longrightarrow> socket (registered n (onTelemetry callback device) s) \<noteq> None"
  by (induction n) (simp_all add: registered_def onTelemetry_socket)

lemma onTelemetry_once_delivery:
  assumes "socket s \<noteq> None" and "0 < n"
    and "tel_filter device (ors [get data ''device'', get data ''deviceId''] (JStr ''unknown'')) = Some True"
  shows "calls (deliver e' ''telemetry'' data (registered n (onTelemetry callback device) s)) =
         calls (registered n (onTelemetry callback device) s) @ [callback]"
proof -
  from assms(2) obtain m where n: "n = Suc m" by (cases n) auto
  let ?s = "registered m (onTelemetry callback device) s"
  have "socket ?s \<noteq> None" using assms(1) by (rule registered_onTelemetry_socket)
  from onTelemetry_installed [OF this, of callback device] obtain k' where
    k': "socket (fst (onTelemetry callback device ?s)) = Some k'"
    "filter (\<lambda>r. fst r = ''telemetry'') (handlers k') = [(''telemetry'', HTelemetry callback device)]"
    by blast
  have "deliver e' ''telemetry'' data (fst (onTelemetry callback device ?s)) =
        run_handler e' data (HTelemetry callback device) (fst (onTelemetry callback device ?s))"
    using k' by (rule deliver_single)
  then show ?thesis using assms(3)
    by (simp add: n registered_Suc run_handler_def)
qed


lemma subscribeToNotifications_fields [simp]:
  "socket (subscribeToNotifications s) = socket s"
  "listeners (subscribeToNotifications s) = listeners s"
  "activeListeners (subscribeToNotifications s) = activeListeners s"
  "calls (subscribeToNotifications s) = calls s"
  by (simp_all add: subscribeToNotifications_def Let_def emit_def)

lemma onNotification_first:
  assumes "socket s = Some k" and "\<not> hasListeners ''notification'' k"
    and "listeners s ''notification'' = None" and "activeListeners s ''notification'' = None"
  shows "\<exists>k'. socket (fst (onNotification callback s)) = Some k' \<and>
           filter (\<lambda>r. fst r = ''notification'') (handlers k') = [(''notification'', HNotification)] \<and>
           listeners (fst (onNotification callback s)) ''notification'' = Some [callback] \<and>
           activeListeners (fst (onNotification callback s)) ''notification'' = Some ATrue"
proof -
  have "filter (\<lambda>r. fst r = ''notification'') (handlers k) = []"
    using assms(2) by (auto simp: hasListeners_def list_ex_iff filter_empty_conv)
  then show ?thesis using assms
    by (simp add: onNotification_def Let_def sock_on_def callbacks_of_def)
qed

lemma onNotification_next:
  assumes "socket s = Some k"
    and "filter (\<lambda>r. fst r = ''notification'') (handlers k) = [(''notification'', HNotification)]"
    and "listeners s ''notification'' = Some l" and "activeListeners s ''notification'' = Some ATrue"
  shows "socket (fst (onNotification callback s)) = Some k \<and>
         listeners (fst (onNotification callback s)) ''notification'' = Some (l @ [callback]) \<and>
         activeListeners (fst (onNotification callback s)) ''notification'' = Some ATrue"
  using assms by (simp add: onNotification_def Let_def callbacks_of_def)

lemma onNotification_accumulates:
  assumes "socket s = Some k" and "\<not> hasListeners ''notification'' k"
    and "listeners s ''notification'' = None" and "activeListeners s ''notification'' = None"
  shows "\<exists>k'. socket (registered (Suc m) (onNotification callback) s) = Some k' \<and>
           filter (\<lambda>r. fst r = ''notification'') (handlers k') = [(''notification'', HNotification)] \<and>
           listeners (registered (Suc m) (onNotification callback) s) ''notification'' =
             Some (replicate (Suc m) callback) \<and>
           activeListeners (registered (Suc m) (onNotification callback) s) ''notification'' = Some ATrue"
proof (induction m)
  case 0
  from onNotification_first [OF assms, of callback] show ?case by (simp add: registered_def)
next
  case (Suc m)
  then obtain k' where k': "socket (registered (Suc m) (onNotification callback) s) = Some k'"
    "filter (\<lambda>r. fst r = ''notification'') (handlers k') = [(''notification'', HNotification)]"
    "listeners (registered (Suc m) (onNotification callback) s) ''notification'' =
       Some (replicate (Suc m) callback)"
    "activeListeners (registered (Suc m) (onNotification callback) s) ''notification'' = Some ATrue"
    by blast
  from onNotification_next [OF k', of callback] k'(2) show ?case
    by (simp add: registered_Suc [of "Suc m"] replicate_append_same)
qed

lemma onNotification_n_deliveries:
  assumes "socket s = Some k" and "\<not> hasListeners ''notification'' k"
    and "listeners s ''notification'' = None" and "activeListeners s ''notification'' = None"
    and "0 < n"
  shows "calls (deliver e' ''notification'' data (registered n (onNotification callback) s)) =
         calls (registered n (onNotification callback) s) @ replicate n callback"
proof -
  from assms(5) obtain m where n: "n = Suc m" by (cases n) auto
  from onNotification_accumulates [OF assms(1-4), of m callback] obtain k' where
    k': "socket (registered n (onNotification callback) s) = Some k'"
    "filter (\<lambda>r. fst r = ''notification'') (handlers k') = [(''notification'', HNotification)]"
    "listeners (registered n (onNotification callback) s) ''notification'' = Some (replicate n callback)"
    unfolding n by blast
  have "deliver e' ''notification'' data (registered n (onNotification callback) s) =
        run_handler e' data HNotification (registered n (onNotification callback) s)"
    using k'(1,2) by (rule deliver_single)
  then show ?thesis using k'(3)
    by (simp add: run_handler_def notification_handler_def callbacks_of_def)
qed

lemmas service_simps = initial_def constructed_def connect_def socket_disconnect_def new_socket_def
  empty_cache_def registered_def onNotification_def Let_def sock_on_def sock_off_def callbacks_of_def
  subscribeToNotifications_def set_add_def deliver_def run_handler_def notification_handler_def
  addNotificationToCache_def emit_def hasListeners_def isConnected_def

text \<open>
  C5, the claim as stated, on the notification kind: the callback 7 is registered
  twice with \<open>onNotification\<close> on the freshly connecting service, then one
  notification event arrives. The callback is invoked twice.
\<close>

theorem onNotification_twice_delivers_twice:
  "calls (registered 2 (onNotification 7) initial) = [] \<and>
   calls (deliver env2 ''notification'' sample_notification (registered 2 (onNotification 7) initial)) = [7, 7]"
  by (simp add: service_simps numeral_2_eq_2)

text \<open>
  C5, as the code has it. With the socket initialised, registering a callback any
  number \<open>n \<ge> 1\<close> of times with \<open>onAlarm\<close>, \<open>onAlarmNotification\<close> or
  \<open>onTelemetry\<close> and then delivering one event of that kind (for telemetry, one that
  passes the device filter) invokes the callback exactly once: each registration
  removes the handler of its kind before it installs its own. \<open>onNotification\<close>
  installs its handler once and appends the callback: on a service without
  notification listeners, after \<open>n\<close> registrations one event invokes the callback
  \<open>n\<close> times.
\<close>

theorem registration_deliveries:
  assumes "socket s \<noteq> None" and "0 < n"
  shows "calls (deliver e' ''alarm'' data (registered n (onAlarm e callback) s)) =
           calls (registered n (onAlarm e callback) s) @ [callback] \<and>
         calls (deliver e' ''alarm_notification'' data (registered n (onAlarmNotification e callback) s)) =
           calls (registered n (onAlarmNotification e callback) s) @ [callback] \<and>
         (tel_filter device (ors [get data ''device'', get data ''deviceId''] (JStr ''unknown'')) = Some True \<longrightarrow>
          calls (deliver e' ''telemetry'' data (registered n (onTelemetry callback device) s)) =
            calls (registered n (onTelemetry callback device) s) @ [callback]) \<and>
         ((\<exists>k. socket s = Some k \<and> \<not> hasListeners ''notification'' k) \<and>
          listeners s ''notification'' = None \<and> activeListeners s ''notification'' = None \<longrightarrow>
          calls (deliver e' ''notification'' data (registered n (onNotification callback) s)) =
            calls (registered n (onNotification callback) s) @ replicate n callback)"
  using assms listen_once_delivery [of s n "''alarm''" HAlarm e' data e callback]
    listen_once_delivery [of s n "''alarm_notification''" HAlarmNotification e' data e callback]
    onTelemetry_once_delivery [of s n device data e' callback]
    onNotification_n_deliveries [of s _ n e' data callback]
  by (auto simp: onAlarm_def onAlarmNotification_def)

theorem registration_deliveries_witness:
  "socket initial \<noteq> None \<and> (0::nat) < 3 \<and>
   tel_filter (JStr ''esp32_04'')
     (ors [get telemetry_esp32_04 ''device'', get telemetry_esp32_04 ''deviceId''] (JStr ''unknown'')) = Some True \<and>
   socket initial = Some new_socket \<and> \<not> hasListeners ''notification'' new_socket \<and>
   listeners initial ''notification'' = None \<and> activeListeners initial ''notification'' = None \<and>
   calls (deliver env2 ''alarm'' push_event (registered 3 (onAlarm env1 7) initial)) =
     calls (registered 3 (onAlarm env1 7) initial) @ [7] \<and>
   calls (deliver env2 ''alarm_notification'' push_event (registered 3 (onAlarmNotification env1 7) initial)) =
     calls (registered 3 (onAlarmNotification env1 7) initial) @ [7] \<and>
   calls (deliver env2 ''telemetry'' telemetry_esp32_04 (registered 3 (onTelemetry 7 (JStr ''esp32_04'')) initial)) =
     calls (registered 3 (onTelemetry 7 (JStr ''esp32_04'')) initial) @ [7] \<and>
   calls (deliver env2 ''notification'' sample_notification (registered 3 (onNotification 7) initial)) =
     calls (registered 3 (onNotification 7) initial) @ [7, 7, 7]"
proof -
  have h: "socket initial \<noteq> None" "(0::nat) < 3"
    "tel_filter (JStr ''esp32_04'')
       (ors [get telemetry_esp32_04 ''device'', get telemetry_esp32_04 ''deviceId''] (JStr ''unknown'')) = Some True"
    "socket initial = Some new_socket" "\<not> hasListeners ''notification'' new_socket"
    "listeners initial ''notification'' = None" "activeListeners initial ''notification'' = None"
    by (simp_all add: initial_def constructed_def connect_def socket_disconnect_def
        tel_filter_def telemetry_esp32_04_def hasListeners_def new_socket_def)
  have r: "replicate 3 (7::nat) = [7, 7, 7]" by (simp add: numeral_3_eq_3)
  show ?thesis
    using registration_deliveries [OF h(1,2), of env2 push_event env1 7 "JStr ''esp32_04''"]
      registration_deliveries [OF h(1,2), of env2 telemetry_esp32_04 env1 7 "JStr ''esp32_04''"]
      registration_deliveries [OF h(1,2), of env2 sample_notification env1 7 "JStr ''esp32_04''"]
      h r
    by simp
qed


subsection \<open>Disposers\<close>

text \<open>
  C6, the claim as stated: every registration returns a disposer.
  \<open>onNotification\<close> returns nothing, and so do \<open>onAlarm\<close> and
  \<open>onAlarmNotification\<close> on a service without a socket.
\<close>

theorem onNotification_no_disposer:
  "snd (onNotification 7 initial) = None \<and> snd (onAlarm env1 7 constructed) = None"
  by (simp add: onNotification_def onAlarm_def listen_def constructed_def Let_def)

lemma filter_remove1_other: "filter (\<lambda>c. c \<noteq> x) (remove1 x xs) = filter (\<lambda>c. c \<noteq> x) xs"
  by (induction xs) auto

lemma length_remove1_mem: "x \<in> set xs \<Longrightarrow> Suc (length (remove1 x xs)) = length xs"
  by (induction xs) auto

text \<open>
  C6, as the code has it. \<open>onTelemetry\<close> always returns a disposer; \<open>onAlarm\<close>
  and \<open>onAlarmNotification\<close> return one when the socket is initialised and nothing
  otherwise; \<open>onNotification\<close> returns none. The disposer of an alarm or alarm
  notification registration returns normally and removes one occurrence of its
  callback, if there is one, from the callback list of its event: the other
  callbacks of that list keep their places, the lists of the other events and every
  other part of the service, the socket's handlers among them, are unchanged.
\<close>

theorem disposers:
  "snd (onTelemetry callback device s) \<noteq> None \<and>
   (socket s \<noteq> None \<longrightarrow>
      snd (onAlarm e callback s) = Some (DListener ''alarm'' callback) \<and>
      snd (onAlarmNotification e callback s) = Some (DListener ''alarm_notification'' callback)) \<and>
   (socket s = None \<longrightarrow>
      snd (onAlarm e callback s) = None \<and> snd (onAlarmNotification e callback s) = None) \<and>
   snd (onNotification callback s) = None \<and>
   snd (run_disposer (DListener ev callback) s) = True \<and>
   fst (run_disposer (DListener ev callback) s) =
     s\<lparr>listeners := listeners (fst (run_disposer (DListener ev callback) s))\<rparr> \<and>
   (\<forall>ev'. ev' \<noteq> ev \<longrightarrow>
      listeners (fst (run_disposer (DListener ev callback) s)) ev' = listeners s ev') \<and>
   filter (\<lambda>c. c \<noteq> callback) (callbacks_of (fst (run_disposer (DListener ev callback) s)) ev) =
     filter (\<lambda>c. c \<noteq> callback) (callbacks_of s ev) \<and>
   (callback \<in> set (callbacks_of s ev) \<longrightarrow>
      length (callbacks_of (fst (run_disposer (DListener ev callback) s)) ev) + 1 =
      length (callbacks_of s ev))"
proof -
  have reg: "snd (onTelemetry callback device s) \<noteq> None \<and>
   (socket s \<noteq> None \<longrightarrow>
      snd (onAlarm e callback s) = Some (DListener ''alarm'' callback) \<and>
      snd (onAlarmNotification e callback s) = Some (DListener ''alarm_notification'' callback)) \<and>
   (socket s = None \<longrightarrow>
      snd (onAlarm e callback s) = None \<and> snd (onAlarmNotification e callback s) = None) \<and>
   snd (onNotification callback s) = None"
    by (auto simp: onTelemetry_def onAlarm_def onAlarmNotification_def listen_def onNotification_def
        Let_def split: option.splits)
  have disp: "snd (run_disposer (DListener ev callback) s) = True \<and>
   fst (run_disposer (DListener ev callback) s) =
     s\<lparr>listeners := listeners (fst (run_disposer (DListener ev callback) s))\<rparr> \<and>
   (\<forall>ev'. ev' \<noteq> ev \<longrightarrow>
      listeners (fst (run_disposer (DListener ev callback) s)) ev' = listeners s ev') \<and>
   filter (\<lambda>c. c \<noteq> callback) (callbacks_of (fst (run_disposer (DListener ev callback) s)) ev) =
     filter (\<lambda>c. c \<noteq> callback) (callbacks_of s ev) \<and>
   (callback \<in> set (callbacks_of s ev) \<longrightarrow>
      length (callbacks_of (fst (run_disposer (DListener ev callback) s)) ev) + 1 =
      length (callbacks_of s ev))"
    by (cases "listeners s ev")
      (simp_all add: run_disposer_def removeListener_def callbacks_of_def filter_remove1_other
        length_remove1_mem)
  from reg disp show ?thesis by blast
qed


theorem disposers_witness:
  "socket initial \<noteq> None \<and> socket constructed = None \<and> (''alarm_notification'' \<noteq> ''alarm'') \<and>
   (7::nat) \<in> set (callbacks_of (fst (onAlarm env1 7 initial)) ''alarm'') \<and>
   snd (onAlarm env1 7 initial) = Some (DListener ''alarm'' 7) \<and>
   snd (onAlarmNotification env1 7 initial) = Some (DListener ''alarm_notification'' 7) \<and>
   snd (onAlarm env1 7 constructed) = None \<and>
   listeners (fst (run_disposer (DListener ''alarm'' 7) (fst (onAlarm env1 7 initial)))) ''alarm_notification'' =
     listeners (fst (onAlarm env1 7 initial)) ''alarm_notification'' \<and>
   length (callbacks_of (fst (run_disposer (DListener ''alarm'' 7) (fst (onAlarm env1 7 initial)))) ''alarm'') + 1 =
     length (callbacks_of (fst (onAlarm env1 7 initial)) ''alarm'')"
proof -
  have h: "socket initial \<noteq> None" "socket constructed = None"
    "(7::nat) \<in> set (callbacks_of (fst (onAlarm env1 7 initial)) ''alarm'')"
    by (simp_all add: initial_def constructed_def onAlarm_def listen_def Let_def callbacks_of_def
        emit_def sock_on_def sock_off_def)
  show ?thesis
    using disposers [of 7 JUndefined initial env1 "''alarm''"]
      disposers [of 7 JUndefined constructed env1 "''alarm''"]
      disposers [of 7 JUndefined "fst (onAlarm env1 7 initial)" env1 "''alarm''"] h
    by simp
qed

lemma telemetry_disposer_removes_handler:
  "calls (deliver env2 ''telemetry'' telemetry_esp32_04
     (fst (onTelemetry 8 JUndefined (fst (onTelemetry 7 JUndefined initial))))) = [8] \<and>
   calls (deliver env2 ''telemetry'' telemetry_esp32_04
     (fst (run_disposer (DTelemetry 7 ''telemetry-global'')
        (fst (onTelemetry 8 JUndefined (fst (onTelemetry 7 JUndefined initial))))))) = []"
  by (simp add: onTelemetry_def removeAllTelemetryListeners_def run_disposer_def removeListener_def
      tel_filter_def listenerKey_def service_simps)

subsection \<open>Pending subscriptions\<close>

lemma listen_fields:
  "pendingSubscriptions (fst (listen ev h e callback s)) = pendingSubscriptions s \<and>
   set (outbox s) \<subseteq> set (outbox (fst (listen ev h e callback s)))"
  by (auto simp: listen_def Let_def emit_def split: option.splits)

lemma onTelemetry_fields:
  "pendingSubscriptions (fst (onTelemetry callback device s)) = pendingSubscriptions s \<and>
   outbox (fst (onTelemetry callback device s)) = outbox s"
  by (auto simp: onTelemetry_def Let_def split: option.splits)

lemma register_pending_fields:
  "pendingSubscriptions (register_pending e t callback s) = pendingSubscriptions s \<and>
   set (outbox s) \<subseteq> set (outbox (register_pending e t callback s))"
  using listen_fields [of "''alarm''" HAlarm e callback s]
    listen_fields [of "''alarm_notification''" HAlarmNotification e callback s]
    onTelemetry_fields [of callback JUndefined s]
  by (simp add: register_pending_def onAlarm_def onAlarmNotification_def)

lemma fold_register_pending:
  "pendingSubscriptions (fold (register_pending e t) cbs s) = pendingSubscriptions s \<and>
   set (outbox s) \<subseteq> set (outbox (fold (register_pending e t) cbs s))"
proof (induction cbs arbitrary: s)
  case Nil
  show ?case by simp
next
  case (Cons c cbs)
  from Cons [of "register_pending e t c s"] register_pending_fields [of e t c s]
  show ?case by auto
qed

lemma process_pending_fields:
  "pendingSubscriptions (process_pending e t s) = pendingSubscriptions s \<and>
   set (outbox s) \<subseteq> set (outbox (process_pending e t s))"
proof (cases "listeners s t")
  case None
  then show ?thesis by (simp add: process_pending_def)
next
  case (Some cbs)
  with fold_register_pending [of e "replace_first t ''_pending_''" cbs s]
  show ?thesis by (simp add: process_pending_def Let_def)
qed

lemma fold_process_pending:
  "pendingSubscriptions (fold (process_pending e) ts s) = pendingSubscriptions s \<and>
   set (outbox s) \<subseteq> set (outbox (fold (process_pending e) ts s))"
proof (induction ts arbitrary: s)
  case Nil
  show ?case by simp
next
  case (Cons t ts)
  from Cons [of "process_pending e t s"] process_pending_fields [of e t s]
  show ?case by auto
qed

lemma connect_handler_fields:
  "pendingSubscriptions (connect_handler e s) = pendingSubscriptions s \<and>
   set (outbox s) \<union> replay ` set (pendingSubscriptions s) \<subseteq> set (outbox (connect_handler e s))"
proof -
  let ?s2 = "s\<lparr>connected := True, outbox := outbox s @ map replay (pendingSubscriptions s)\<rparr>"
  let ?ts = "[''_pending_alarm'', ''_pending_alarm_notification'', ''_pending_telemetry'']"
  have c: "connect_handler e s =
    (fold (process_pending e) ?ts ?s2)\<lparr>calls := calls (fold (process_pending e) ?ts ?s2) @
       connectionCallbacks (fold (process_pending e) ?ts ?s2)\<rparr>"
    by (simp add: connect_handler_def Let_def)
  from fold_process_pending [of e ?ts ?s2] show ?thesis unfolding c by auto
qed

lemma run_handler_fields:
  "pendingSubscriptions (run_handler e data h s) = pendingSubscriptions s \<and>
   set (outbox s) \<subseteq> set (outbox (run_handler e data h s))"
proof (cases h)
  case HConnect
  with connect_handler_fields [of e s] show ?thesis by (simp add: run_handler_def)
next
  case (HTelemetry callback device)
  then show ?thesis by (simp add: run_handler_def split: option.splits bool.splits)
qed (simp_all add: run_handler_def disconnect_handler_def alarm_handler_def notification_handler_def)

lemma fold_run_handler:
  "pendingSubscriptions (fold (run_handler e data) hs s) = pendingSubscriptions s \<and>
   set (outbox s) \<subseteq> set (outbox (fold (run_handler e data) hs s)) \<and>
   (HConnect \<in> set hs \<longrightarrow>
      replay ` set (pendingSubscriptions s) \<subseteq> set (outbox (fold (run_handler e data) hs s)))"
proof (induction hs arbitrary: s)
  case Nil
  show ?case by simp
next
  case (Cons h hs)
  have ih: "pendingSubscriptions (fold (run_handler e data) hs (run_handler e data h s)) =
      pendingSubscriptions s"
    "set (outbox (run_handler e data h s)) \<subseteq> set (outbox (fold (run_handler e data) hs (run_handler e data h s)))"
    "HConnect \<in> set hs \<longrightarrow> replay ` set (pendingSubscriptions s)
       \<subseteq> set (outbox (fold (run_handler e data) hs (run_handler e data h s)))"
    using Cons [of "run_handler e data h s"] run_handler_fields [of e data h s] by auto
  have first: "h = HConnect \<longrightarrow>
      replay ` set (pendingSubscriptions s) \<subseteq> set (outbox (run_handler e data h s))"
    using connect_handler_fields [of e s] by (auto simp: run_handler_def)
  from ih first run_handler_fields [of e data h s] show ?case by auto
qed

lemma socket_connected_replays:
  assumes "socket s = Some k" and "(''connect'', HConnect) \<in> set (handlers k)"
  shows "replay ` set (pendingSubscriptions s) \<subseteq> set (outbox (socket_connected e s))"
proof -
  let ?hs = "map snd (filter (\<lambda>r. fst r = ''connect'') (handlers k))"
  have "HConnect \<in> set ?hs" using assms(2) by force
  with fold_run_handler [of e "[]" ?hs "s\<lparr>socket := Some (k\<lparr>sconnected := True\<rparr>)\<rparr>"]
  show ?thesis using assms(1) by (simp add: socket_connected_def deliver_def)
qed


lemma set_add_mem: "x \<in> set (set_add x xs)"
  by (simp add: set_add_def)

lemma subscribeToDevice_pending:
  "deviceId \<noteq> [] \<Longrightarrow> deviceId \<in> set (pendingSubscriptions (subscribeToDevice deviceId s))"
  by (simp add: subscribeToDevice_def Let_def emit_def set_add_mem)

lemma subscribeToPlant_pending:
  "truthy plantId \<or> plantId = JNum 0 \<Longrightarrow>
   ''plant-'' @ to_string plantId \<in> set (pendingSubscriptions (subscribeToPlant plantId s))"
  by (auto simp: subscribeToPlant_def Let_def emit_def set_add_mem)

lemma subscribeToDevice_disconnected:
  assumes "deviceId \<noteq> []" and "deviceId \<notin> set (pendingSubscriptions s)"
    and "socket s = None \<or> \<not> connected s"
  shows "socket (subscribeToDevice deviceId s) = Some new_socket"
  using assms by (auto simp: subscribeToDevice_def Let_def)

lemma subscribeToPlant_disconnected:
  assumes "truthy plantId \<or> plantId = JNum 0"
    and "''plant-'' @ to_string plantId \<notin> set (pendingSubscriptions s)"
    and "socket s = None \<or> \<not> connected s"
  shows "socket (subscribeToPlant plantId s) = Some new_socket"
  using assms by (auto simp: subscribeToPlant_def Let_def)

lemma replay_plant: "replay (''plant-'' @ x) = (''subscribe-plant'', PVal (JStr x))"
  by (simp add: replay_def)

text \<open>
  C7, the claim as stated: no subscription requested during a disconnection is lost.
  Two device subscriptions are requested before the transport has connected; the
  second request removes the first from the pending set, and the connect handler
  replays the second only.
\<close>

theorem earlier_device_subscription_lost:
  "\<not> isConnected initial \<and>
   pendingSubscriptions (subscribeToDevice ''esp32_01'' initial) = [''esp32_01''] \<and>
   \<not> isConnected (subscribeToDevice ''esp32_01'' initial) \<and>
   pendingSubscriptions two_devices = [''esp32_04''] \<and>
   outbox (socket_connected env1 two_devices) = [(''subscribe'', PVal (JStr ''esp32_04''))] \<and>
   (''subscribe'', PVal (JStr ''esp32_01'')) \<notin> set (outbox (socket_connected env1 two_devices))"
  by (simp add: two_devices_def subscribeToDevice_def socket_connected_def connect_handler_def
      process_pending_def replay_def service_simps)

lemma device_request_drops_plant:
  "pendingSubscriptions (subscribeToPlant (JNum 2) initial) = [''plant-2''] \<and>
   pendingSubscriptions plant_then_device = [''esp32_04'']"
  by (simp add: plant_then_device_def subscribeToDevice_def subscribeToPlant_def
      show_int_def show_nat.simps digit_char_def service_simps)

text \<open>
  C7, as the code has it. A device or plant subscription requested with a non-empty
  id is in the pending set when the request returns. When the transport connects, the
  connect handler replays the whole set as it then stands: a device subscribe for
  every entry that does not begin with \<open>plant-\<close>, a plant subscribe with the rest
  of the entry for every entry that does. Hence a subscription requested while
  disconnected, and not queued before, is replayed by the connection that follows
  the request.
\<close>

theorem pending_replay:
  "(deviceId \<noteq> [] \<longrightarrow> deviceId \<in> set (pendingSubscriptions (subscribeToDevice deviceId s))) \<and>
   (truthy plantId \<or> plantId = JNum 0 \<longrightarrow>
      ''plant-'' @ to_string plantId \<in> set (pendingSubscriptions (subscribeToPlant plantId s))) \<and>
   (\<forall>k. socket s = Some k \<and> (''connect'', HConnect) \<in> set (handlers k) \<longrightarrow>
      (\<forall>sub \<in> set (pendingSubscriptions s).
         (if startsWith sub ''plant-''
          then (''subscribe-plant'', PVal (JStr (replace_first sub ''plant-'')))
          else (''subscribe'', PVal (JStr sub))) \<in> set (outbox (socket_connected e s)))) \<and>
   (deviceId \<noteq> [] \<and> \<not> startsWith deviceId ''plant-'' \<and>
    deviceId \<notin> set (pendingSubscriptions s) \<and> (socket s = None \<or> \<not> connected s) \<longrightarrow>
      (''subscribe'', PVal (JStr deviceId))
        \<in> set (outbox (socket_connected e (subscribeToDevice deviceId s)))) \<and>
   ((truthy plantId \<or> plantId = JNum 0) \<and>
    ''plant-'' @ to_string plantId \<notin> set (pendingSubscriptions s) \<and>
    (socket s = None \<or> \<not> connected s) \<longrightarrow>
      (''subscribe-plant'', PVal (JStr (to_string plantId)))
        \<in> set (outbox (socket_connected e (subscribeToPlant plantId s))))"
proof -
  have new: "(''connect'', HConnect) \<in> set (handlers new_socket)"
    by (simp add: new_socket_def)
  have conn: "\<forall>k. socket s = Some k \<and> (''connect'', HConnect) \<in> set (handlers k) \<longrightarrow>
      (\<forall>sub \<in> set (pendingSubscriptions s).
         (if startsWith sub ''plant-''
          then (''subscribe-plant'', PVal (JStr (replace_first sub ''plant-'')))
          else (''subscribe'', PVal (JStr sub))) \<in> set (outbox (socket_connected e s)))"
  proof (intro allI impI ballI)
    fix k sub
    assume "socket s = Some k \<and> (''connect'', HConnect) \<in> set (handlers k)"
      and "sub \<in> set (pendingSubscriptions s)"
    with socket_connected_replays [of s k e]
    have "replay sub \<in> set (outbox (socket_connected e s))" by blast
    then show "(if startsWith sub ''plant-''
          then (''subscribe-plant'', PVal (JStr (replace_first sub ''plant-'')))
          else (''subscribe'', PVal (JStr sub))) \<in> set (outbox (socket_connected e s))"
      by (simp add: replay_def)
  qed
  have dev: "deviceId \<noteq> [] \<and> \<not> startsWith deviceId ''plant-'' \<and>
    deviceId \<notin> set (pendingSubscriptions s) \<and> (socket s = None \<or> \<not> connected s) \<longrightarrow>
      (''subscribe'', PVal (JStr deviceId))
        \<in> set (outbox (socket_connected e (subscribeToDevice deviceId s)))"
  proof (intro impI)
    assume a: "deviceId \<noteq> [] \<and> \<not> startsWith deviceId ''plant-'' \<and>
      deviceId \<notin> set (pendingSubscriptions s) \<and> (socket s = None \<or> \<not> connected s)"
    then have "socket (subscribeToDevice deviceId s) = Some new_socket"
      by (intro subscribeToDevice_disconnected) auto
    from socket_connected_replays [OF this new, of e] subscribeToDevice_pending [of deviceId s] a
    have "replay deviceId \<in> set (outbox (socket_connected e (subscribeToDevice deviceId s)))"
      by blast
    with a show "(''subscribe'', PVal (JStr deviceId))
        \<in> set (outbox (socket_connected e (subscribeToDevice deviceId s)))"
      by (simp add: replay_def)
  qed
  have plant: "(truthy plantId \<or> plantId = JNum 0) \<and>
    ''plant-'' @ to_string plantId \<notin> set (pendingSubscriptions s) \<and>
    (socket s = None \<or> \<not> connected s) \<longrightarrow>
      (''subscribe-plant'', PVal (JStr (to_string plantId)))
        \<in> set (outbox (socket_connected e (subscribeToPlant plantId s)))"
  proof (intro impI)
    assume a: "(truthy plantId \<or> plantId = JNum 0) \<and>
      ''plant-'' @ to_string plantId \<notin> set (pendingSubscriptions s) \<and>
      (socket s = None \<or> \<not> connected s)"
    then have "socket (subscribeToPlant plantId s) = Some new_socket"
      by (intro subscribeToPlant_disconnected) auto
    from socket_connected_replays [OF this new, of e] subscribeToPlant_pending [of plantId s] a
    have "replay (''plant-'' @ to_string plantId)
        \<in> set (outbox (socket_connected e (subscribeToPlant plantId s)))"
      by blast
    then show "(''subscribe-plant'', PVal (JStr (to_string plantId)))
        \<in> set (outbox (socket_connected e (subscribeToPlant plantId s)))"
      by (simp only: replay_plant)
  qed
  from subscribeToDevice_pending [of deviceId s] subscribeToPlant_pending [of plantId s]
    conn dev plant
  show ?thesis by blast
qed

theorem pending_replay_witness:
  "''esp32_04'' \<noteq> [] \<and> truthy (JNum 2) \<and> \<not> startsWith ''esp32_04'' ''plant-'' \<and>
   ''esp32_04'' \<notin> set (pendingSubscriptions initial) \<and> \<not> connected initial \<and>
   ''plant-'' @ to_string (JNum 2) \<notin> set (pendingSubscriptions initial) \<and>
   socket device_and_plant = Some new_socket \<and>
   (''connect'', HConnect) \<in> set (handlers new_socket) \<and>
   pendingSubscriptions device_and_plant = [''esp32_04'', ''plant-2''] \<and>
   ''esp32_04'' \<in> set (pendingSubscriptions (subscribeToDevice ''esp32_04'' initial)) \<and>
   ''plant-2'' \<in> set (pendingSubscriptions (subscribeToPlant (JNum 2) initial)) \<and>
   (''subscribe'', PVal (JStr ''esp32_04'')) \<in> set (outbox (socket_connected env1 device_and_plant)) \<and>
   (''subscribe-plant'', PVal (JStr ''2'')) \<in> set (outbox (socket_connected env1 device_and_plant)) \<and>
   (''subscribe'', PVal (JStr ''esp32_04''))
      \<in> set (outbox (socket_connected env1 (subscribeToDevice ''esp32_04'' initial))) \<and>
   (''subscribe-plant'', PVal (JStr ''2''))
      \<in> set (outbox (socket_connected env1 (subscribeToPlant (JNum 2) initial)))"
proof -
  have h: "''esp32_04'' \<noteq> []" "truthy (JNum 2)" "\<not> startsWith ''esp32_04'' ''plant-''"
    "''esp32_04'' \<notin> set (pendingSubscriptions initial)" "\<not> connected initial"
    "''plant-'' @ to_string (JNum 2) \<notin> set (pendingSubscriptions initial)"
    "socket device_and_plant = Some new_socket"
    "(''connect'', HConnect) \<in> set (handlers new_socket)"
    "pendingSubscriptions device_and_plant = [''esp32_04'', ''plant-2'']"
    "to_string (JNum 2) = ''2''"
    by (simp_all add: device_and_plant_def subscribeToDevice_def subscribeToPlant_def
        show_int_def show_nat.simps digit_char_def service_simps)
  show ?thesis
    using pending_replay [of "''esp32_04''" initial "JNum 2" env1]
      pending_replay [of "''esp32_04''" device_and_plant "JNum 2" env1] h
    by simp
qed

end
